theory Spec2Isabelle
  imports Main "HOL-Library.Word" "HOL-Library.Char_ord" "HOL-Library.List_Lexorder"
begin

section \<open>esroll: rolling Elasticsearch indices behind a write alias and a search alias\<close>

text \<open>
  A shallow embedding of \<^verbatim>\<open>esroll.go\<close>. Go's \<^verbatim>\<open>int\<close> is modelled as \<open>int\<close> (the
  program only decrements a counter bounded by a slice length and takes remainders, so
  nothing can overflow); \<^verbatim>\<open>uint64\<close> and \<^verbatim>\<open>int64\<close> are \<open>64 word\<close>, read with
  \<open>uint\<close> and \<open>sint\<close>. An \<^verbatim>\<open>error\<close> is a value; \<^verbatim>\<open>nil\<close> is \<open>None\<close>.
\<close>

subsection \<open>Data model\<close>

datatype error = Error string

text \<open>
  A settings document (\<^verbatim>\<open>map[string]interface{}\<close>) is opaque to the program: it is
  only tested against \<^verbatim>\<open>nil\<close> and handed on. \<open>None\<close> is the \<^verbatim>\<open>nil\<close> map.
\<close>

type_synonym document = "(string \<times> string) list"

record Index =
  Name :: string
  Status :: string
  PriSize :: "64 word"

record IndexConfig =
  Id_conf :: string
  Settings :: "document option"
  SettingsOnRoll :: "document option"
  TargetIndex :: string
  RollIncrement :: int
  RollUnit :: string
  RollSize :: string
  IndexesToAliasForSearch :: int
  SearchSuffix :: string
  DeleteOldIndexes :: bool
  CloseOldIndexes :: bool
  OptimizeOnRoll :: bool
  OptimizeMaxSegments :: int

text \<open>
  A \<^verbatim>\<open>time.Time\<close> in UTC, as the calendar fields the program reads from it
  (\<^verbatim>\<open>t.Year()\<close>, \<^verbatim>\<open>int(t.Month())\<close>, \<^verbatim>\<open>t.YearDay()\<close>, ...).
\<close>

record Time =
  Year :: int
  Month :: int
  Day :: int
  Hour :: int
  Minute :: int
  Second :: int
  YearDay :: int

text \<open>Go's \<^verbatim>\<open>%\<close> truncates towards zero: the result has the sign of the dividend.\<close>

definition go_rem :: "int \<Rightarrow> int \<Rightarrow> int" where
  "go_rem a b = sgn a * (\<bar>a\<bar> mod \<bar>b\<bar>)"

subsection \<open>Validation and defaults\<close>

definition rollUnits :: "string \<Rightarrow> bool" where
  "rollUnits u = (u \<in> set [''bytes'', ''minutes'', ''hours'', ''days'', ''months'', ''years''])"

text \<open>
  \<^verbatim>\<open>humanize.ParseBytes\<close> belongs to a library outside the repository; it is the
  parameter \<open>ParseBytes\<close> of every function that calls it.
\<close>

type_synonym parse_bytes = "string \<Rightarrow> error + 64 word"

definition Validate :: "parse_bytes \<Rightarrow> IndexConfig \<Rightarrow> error option" where
  "Validate ParseBytes config =
    (if Id_conf config = [] then Some (Error ''configuration id is missing'')
     else if IndexesToAliasForSearch config < 0
       then Some (Error ''searchIndexes must be greater than or equal to 0'')
     else if RollUnit config = []
       then Some (Error (''configuration id['' @ Id_conf config @ ''] is invalid. rollUnit is required.''))
     else if rollUnits (RollUnit config) = False
       then Some (Error (''configuration id['' @ Id_conf config @
              ''] is invalid. rollUnit must be one of minutes, hours, days, months, or years.''))
     else if OptimizeMaxSegments config < 0
       then Some (Error ''optimizeMaxSegments must be greater than or equal to 0'')
     else if RollUnit config = ''bytes'' then
       (if RollSize config = [] then Some (Error ''rollSize is required if the rollUnit is bytes'')
        else (case ParseBytes (RollSize config) of
                Inl err \<Rightarrow> Some err
              | Inr maxBytes \<Rightarrow>
                  if maxBytes = 0 then Some (Error ''rollSize must be greater than 0 bytes'')
                  else None))
     else None)"

definition SetDefaults :: "IndexConfig \<Rightarrow> IndexConfig" where
  "SetDefaults config =
    (let c1 = (if TargetIndex config = [] then config\<lparr>TargetIndex := Id_conf config\<rparr> else config);
         c2 = (if SearchSuffix c1 = [] then c1\<lparr>SearchSuffix := ''search''\<rparr> else c1)
     in if IndexesToAliasForSearch c2 = 0 then c2\<lparr>IndexesToAliasForSearch := 2\<rparr> else c2)"

subsection \<open>Loading the policies\<close>

text \<open>
  A stored document, seen through \<^verbatim>\<open>json.Unmarshal\<close> into a zero
  \<^verbatim>\<open>IndexConfig\<close>: either it decodes to a struct or the decoder returns an error.
  The \<^verbatim>\<open>Source\<close> of a hit is a pointer to the document; it is \<open>None\<close> when the
  hit came without one.
\<close>

datatype RawMessage = Decodes IndexConfig | Undecodable error

definition json_Unmarshal :: "RawMessage \<Rightarrow> error + IndexConfig" where
  "json_Unmarshal src = (case src of Decodes configData \<Rightarrow> Inr configData | Undecodable err \<Rightarrow> Inl err)"

record Hit =
  HitId :: string
  Source :: "RawMessage option"

record SearchResult =
  HitsTotal :: int
  HitsHits :: "Hit list"

text \<open>
  What a load comes to: \<^verbatim>\<open>GetConfigs\<close> returns an error or a working set, or it
  panics, which ends the process.
\<close>

datatype loaded = Panicked | Loaded "error + IndexConfig list"

text \<open>
  The loop of \<^verbatim>\<open>GetConfigs\<close> over the hits. The second component collects what
  \<^verbatim>\<open>fmt.Println(err)\<close> printed. \<^verbatim>\<open>*hit.Source\<close> is not guarded: on a hit
  without a source the dereference panics.
\<close>

fun load_hits :: "parse_bytes \<Rightarrow> Hit list \<Rightarrow> IndexConfig list \<Rightarrow> error list \<Rightarrow>
    loaded \<times> error list" where
  "load_hits ParseBytes [] configs printed = (Loaded (Inr configs), printed)"
| "load_hits ParseBytes (hit # hits) configs printed =
    (case Source hit of
       None \<Rightarrow> (Panicked, printed)
     | Some src \<Rightarrow>
        (case json_Unmarshal src of
           Inl err \<Rightarrow> (Loaded (Inl err), printed)
         | Inr decoded \<Rightarrow>
             (let configData = SetDefaults (decoded\<lparr>Id_conf := HitId hit\<rparr>) in
              case Validate ParseBytes configData of
                Some err \<Rightarrow> load_hits ParseBytes hits configs (printed @ [err])
              | None \<Rightarrow> load_hits ParseBytes hits (configs @ [configData]) printed)))"

text \<open>The argument \<open>res\<close> is what the search for the configuration documents returned.\<close>

definition GetConfigs :: "parse_bytes \<Rightarrow> error + SearchResult \<Rightarrow> loaded \<times> error list" where
  "GetConfigs ParseBytes res =
    (case res of
       Inl err \<Rightarrow> (Loaded (Inl err), [])
     | Inr r \<Rightarrow>
         if HitsTotal r = 0 then (Loaded (Inl (Error ''configuration documents not found'')), [])
         else load_hits ParseBytes (HitsHits r) [] [])"

subsection \<open>When to roll\<close>

definition RollsOnSize :: "IndexConfig \<Rightarrow> bool" where
  "RollsOnSize config = (RollUnit config = ''bytes'')"

definition ShouldRoll :: "IndexConfig \<Rightarrow> Time \<Rightarrow> bool" where
  "ShouldRoll config t =
    (if \<not> RollsOnSize config then
       (if RollUnit config = ''minutes'' then
          (let roll = (Second t = 0) in
           if RollIncrement config \<noteq> 0
           then roll \<and> go_rem (Minute t) (RollIncrement config) = 0 else roll)
        else if RollUnit config = ''hours'' then
          (let roll = (Second t = 0 \<and> Minute t = 0) in
           if RollIncrement config \<noteq> 0
           then roll \<and> go_rem (Hour t) (RollIncrement config) = 0 else roll)
        else
          (let roll = (Second t = 0 \<and> Minute t = 0 \<and> Hour t = 0) in
           if RollIncrement config \<noteq> 0 then
             (if RollUnit config = ''days''
                then roll \<and> go_rem (YearDay t) (RollIncrement config) = 0
              else if RollUnit config = ''months''
                then roll \<and> go_rem (Month t) (RollIncrement config) = 0
              else if RollUnit config = ''years''
                then roll \<and> go_rem (Year t) (RollIncrement config) = 0
              else roll)
           else roll))
     else False)"

definition AddWork :: "Time \<Rightarrow> bool" where
  "AddWork t = (Second t = 0)"

subsection \<open>Partition names\<close>

definition IndexSuffixFormat :: "IndexConfig \<Rightarrow> string" where
  "IndexSuffixFormat config =
    (if RollUnit config = ''bytes'' then ''2006-01-02-15-04-05''
     else if RollUnit config = ''minutes'' then ''2006-01-02-15-04''
     else if RollUnit config = ''hours'' then ''2006-01-02-15''
     else if RollUnit config = ''days'' then ''2006-01-02''
     else if RollUnit config = ''months'' then ''2006-01''
     else ''2006'')"

text \<open>
  \<^verbatim>\<open>Time.Format\<close> of the Go library, for the layout verbs that occur in the six
  layouts above: \<^verbatim>\<open>2006\<close> is the year on at least four digits, \<^verbatim>\<open>01\<close>, \<^verbatim>\<open>02\<close>,
  \<^verbatim>\<open>15\<close>, \<^verbatim>\<open>04\<close>, \<^verbatim>\<open>05\<close> are month, day, hour, minute and second on at least two
  digits, and any other character stands for itself.
\<close>

fun decimal :: "nat \<Rightarrow> string" where
  "decimal n =
    (if n < 10 then [''0123456789'' ! n] else decimal (n div 10) @ [''0123456789'' ! (n mod 10)])"

definition appendInt :: "int \<Rightarrow> nat \<Rightarrow> string" where
  "appendInt x width =
    (let ds = decimal (nat \<bar>x\<bar>)
     in (if x < 0 then ''-'' else []) @ replicate (width - length ds) (CHR ''0'') @ ds)"

fun Format :: "Time \<Rightarrow> string \<Rightarrow> string" where
  "Format t [] = []"
| "Format t (c # cs) =
    (if take 4 (c # cs) = ''2006'' then appendInt (Year t) 4 @ Format t (drop 3 cs)
     else if take 2 (c # cs) = ''01'' then appendInt (Month t) 2 @ Format t (drop 1 cs)
     else if take 2 (c # cs) = ''02'' then appendInt (Day t) 2 @ Format t (drop 1 cs)
     else if take 2 (c # cs) = ''15'' then appendInt (Hour t) 2 @ Format t (drop 1 cs)
     else if take 2 (c # cs) = ''04'' then appendInt (Minute t) 2 @ Format t (drop 1 cs)
     else if take 2 (c # cs) = ''05'' then appendInt (Second t) 2 @ Format t (drop 1 cs)
     else c # Format t cs)"

definition NextIndex :: "IndexConfig \<Rightarrow> Time \<Rightarrow> string" where
  "NextIndex config t = TargetIndex config @ ''_'' @ Format t (IndexSuffixFormat config)"

subsection \<open>The connection to the index store\<close>

text \<open>
  An alias action is the triple that \<^verbatim>\<open>UpdateAliasAction\<close> renders into JSON:
  the action (\<^verbatim>\<open>add\<close> or \<^verbatim>\<open>remove\<close>), the index and the alias.
  \<^verbatim>\<open>UpdateAliasActions\<close> wraps the list into the body of one request.
\<close>

type_synonym alias_action = "string \<times> string \<times> string"

definition UpdateAliasAction :: "string \<Rightarrow> string \<Rightarrow> string \<Rightarrow> alias_action" where
  "UpdateAliasAction action index alias = (action, index, alias)"

text \<open>
  The requests that change the store, named after the client calls that send them. Where
  the program joins index names with commas the model keeps the list of names.
  \<open>OptimizeIndices\<close> carries the value of \<^verbatim>\<open>max_num_segments\<close> when the argument
  map has that key.
\<close>

datatype request =
    CreateIndexWithSettings string document
  | UpdateAliases "alias_action list"
  | DeleteIndex "string list"
  | Flush "string list"
  | CloseIndex "string list"
  | PutSettings "string list" document
  | OptimizeIndices "int option" "string list"

text \<open>
  The client library is outside the repository. A connection is given by what its calls
  answer in a store state \<open>'s\<close>: the two queries leave the state alone, a request returns
  its error (or none) and the state it leaves. \<open>ExistsIndex\<close> is the boolean of the
  client's answer; the program ignores the error beside it.
\<close>

record 's Conn =
  ExistsIndex :: "'s \<Rightarrow> string \<Rightarrow> bool"
  GetCatIndexInfo :: "'s \<Rightarrow> string \<Rightarrow> Index list"
  DoCommand :: "'s \<Rightarrow> request \<Rightarrow> error option \<times> 's"

text \<open>The store together with the requests sent to it so far, oldest first.\<close>

record 's world =
  store :: 's
  issued :: "request list"

definition send :: "'s Conn \<Rightarrow> request \<Rightarrow> 's world \<Rightarrow> error option \<times> 's world" where
  "send conn r w =
    (case DoCommand conn (store w) r of
       (err, s') \<Rightarrow> (err, \<lparr>store = s', issued = issued w @ [r]\<rparr>))"

subsection \<open>Size of the write target\<close>

definition IndexSize :: "'s Conn \<Rightarrow> IndexConfig \<Rightarrow> 's \<Rightarrow> 64 word \<times> error option" where
  "IndexSize conn config s =
    (let catIndexInfo = GetCatIndexInfo conn s (TargetIndex config);
         infoSize = length catIndexInfo
     in if infoSize = 0 then (0, Some (Error ''Unable to find index in size calculation''))
        else if infoSize > 1 then (0, Some (Error ''Too many indices returned in size calculation''))
        else (PriSize (hd catIndexInfo), None))"

text \<open>
  \<^verbatim>\<open>priSize < int64(maxBytes)\<close> compares two signed 64-bit integers; the conversion
  of the \<^verbatim>\<open>uint64\<close> keeps the bits.
\<close>

definition HasRoom :: "'s Conn \<Rightarrow> parse_bytes \<Rightarrow> IndexConfig \<Rightarrow> 's \<Rightarrow> bool \<times> error option" where
  "HasRoom conn ParseBytes config s =
    (if \<not> ExistsIndex conn s (TargetIndex config) then (False, None)
     else (case IndexSize conn config s of
             (priSize, Some err) \<Rightarrow> (True, Some err)
           | (priSize, None) \<Rightarrow>
               (case ParseBytes (RollSize config) of
                  Inl err \<Rightarrow> (True, Some err)
                | Inr maxBytes \<Rightarrow> (sint priSize < sint maxBytes, None))))"

subsection \<open>Old partitions\<close>

text \<open>
  \<^verbatim>\<open>sort.Sort(ByIndexAge(indexes))\<close> orders by name, bytewise. Names of indices are
  unique in a store, so the order among equal names, which the Go sort leaves open,
  does not arise.
\<close>

definition OldIndexNames :: "'s Conn \<Rightarrow> IndexConfig \<Rightarrow> 's \<Rightarrow> Index list" where
  "OldIndexNames conn config s =
    (let pattern = TargetIndex config @ ''_*'';
         catIndexInfo = GetCatIndexInfo conn s pattern;
         indexes = map (\<lambda>info. \<lparr>Name = Name info, Status = Status info, PriSize = 0\<rparr>) catIndexInfo
     in sort_key Name indexes)"

subsection \<open>The roll\<close>

text \<open>
  The variables that the loop of \<^verbatim>\<open>Roll\<close> over the old partitions updates.
\<close>

record walk_state =
  actions :: "alias_action list"
  cleanup :: "string list"
  optimizes :: "string list"
  searchIndexes :: int

text \<open>One iteration, for the old partition at position \<open>i\<close> of \<open>len\<close>.\<close>

definition roll_body :: "IndexConfig \<Rightarrow> nat \<Rightarrow> nat \<Rightarrow> Index \<Rightarrow> walk_state \<Rightarrow> walk_state" where
  "roll_body config len i oldIndex st =
    (let searchSuffix = ''_'' @ SearchSuffix config;
         st1 = st\<lparr>actions := actions st @
                  [UpdateAliasAction ''remove'' (Name oldIndex) (TargetIndex config)]\<rparr>;
         retire = (searchIndexes st1 - 1 \<ge> IndexesToAliasForSearch config)
     in if retire then
          (let st2 = st1\<lparr>actions := actions st1 @
                       [UpdateAliasAction ''remove'' (Name oldIndex) (TargetIndex config @ searchSuffix)],
                     searchIndexes := searchIndexes st1 - 1\<rparr>
           in if DeleteOldIndexes config then st2\<lparr>cleanup := cleanup st2 @ [Name oldIndex]\<rparr>
              else if CloseOldIndexes config \<and> Status oldIndex = ''open''
                then st2\<lparr>cleanup := cleanup st2 @ [Name oldIndex]\<rparr>
              else st2)
        else if OptimizeOnRoll config \<or> SettingsOnRoll config \<noteq> None then
          (if int i = int len - 1 then st1\<lparr>optimizes := optimizes st1 @ [Name oldIndex]\<rparr> else st1)
        else st1)"

fun roll_walk :: "IndexConfig \<Rightarrow> nat \<Rightarrow> nat \<Rightarrow> Index list \<Rightarrow> walk_state \<Rightarrow> walk_state" where
  "roll_walk config len i [] st = st"
| "roll_walk config len i (oldIndex # rest) st =
     roll_walk config len (Suc i) rest (roll_body config len i oldIndex st)"

text \<open>
  The state of the loop when it ends: the two \<^verbatim>\<open>add\<close> actions for the new
  partition come first, and the counter starts at one more than the number of old
  partitions.
\<close>

definition roll_plan :: "IndexConfig \<Rightarrow> string \<Rightarrow> Index list \<Rightarrow> walk_state" where
  "roll_plan config nextIndex oldIndexes =
    (let searchSuffix = ''_'' @ SearchSuffix config
     in roll_walk config (length oldIndexes) 0 oldIndexes
          \<lparr>actions = [UpdateAliasAction ''add'' nextIndex (TargetIndex config),
                      UpdateAliasAction ''add'' nextIndex (TargetIndex config @ searchSuffix)],
           cleanup = [], optimizes = [],
           searchIndexes = 1 + int (length oldIndexes)\<rparr>)"

text \<open>\<^verbatim>\<open>if err != nil { return err }\<close> between two steps.\<close>

definition and_then :: "error option \<times> 'w \<Rightarrow> ('w \<Rightarrow> error option \<times> 'w) \<Rightarrow> error option \<times> 'w" where
  "and_then r k = (case r of (Some err, w) \<Rightarrow> (Some err, w) | (None, w) \<Rightarrow> k w)"

text \<open>
  The block on the retired partitions (\<^verbatim>\<open>if len(cleanup) > 0\<close>): delete them, or
  flush and close them.
\<close>

definition roll_cleanup :: "'s Conn \<Rightarrow> IndexConfig \<Rightarrow> string list \<Rightarrow> 's world \<Rightarrow> error option \<times> 's world" where
  "roll_cleanup conn config clean w =
    (if length clean > 0 then
       (if DeleteOldIndexes config then send conn (DeleteIndex clean) w
        else if CloseOldIndexes config
          then and_then (send conn (Flush clean) w) (send conn (CloseIndex clean))
        else (None, w))
     else (None, w))"

text \<open>
  The block on the demoted partition (\<^verbatim>\<open>if len(optimizes) > 0\<close>): its settings
  first, then the optimize.
\<close>

definition roll_optimize :: "'s Conn \<Rightarrow> IndexConfig \<Rightarrow> string list \<Rightarrow> 's world \<Rightarrow> error option \<times> 's world" where
  "roll_optimize conn config opts w =
    (if length opts > 0 then
       and_then
         (case SettingsOnRoll config of
            Some d \<Rightarrow> send conn (PutSettings opts d) w
          | None \<Rightarrow> (None, w))
         (\<lambda>w'. if OptimizeOnRoll config then
                 send conn (OptimizeIndices
                   (if OptimizeMaxSegments config \<noteq> 0 then Some (OptimizeMaxSegments config) else None)
                   opts) w'
               else (None, w'))
     else (None, w))"

text \<open>
  The gate at the head of \<^verbatim>\<open>Roll\<close>: \<open>Some r\<close> when \<^verbatim>\<open>Roll\<close> returns \<open>r\<close> there,
  \<open>None\<close> when it goes on to create the partition. \<^verbatim>\<open>Roll\<close> itself follows: the
  gate, the list of the old partitions, the creation, the alias batch built by the loop,
  the cleanup and the demotion.
\<close>

definition roll_gate :: "'s Conn \<Rightarrow> parse_bytes \<Rightarrow> IndexConfig \<Rightarrow> string \<Rightarrow> 's \<Rightarrow> error option option" where
  "roll_gate conn ParseBytes config nextIndex s =
    (if RollsOnSize config then
       (case HasRoom conn ParseBytes config s of
          (room, Some err) \<Rightarrow> Some (Some err)
        | (room, None) \<Rightarrow> if room then Some None else None)
     else if ExistsIndex conn s nextIndex then Some None
     else None)"

definition Roll :: "'s Conn \<Rightarrow> parse_bytes \<Rightarrow> IndexConfig \<Rightarrow> Time \<Rightarrow> 's world \<Rightarrow> error option \<times> 's world" where
  "Roll conn ParseBytes config t w =
    (let nextIndex = NextIndex config t in
     case roll_gate conn ParseBytes config nextIndex (store w) of
       Some r \<Rightarrow> (r, w)
     | None \<Rightarrow>
         (let settings = (case Settings config of None \<Rightarrow> [] | Some d \<Rightarrow> d);
              oldIndexes = OldIndexNames conn config (store w);
              plan = roll_plan config nextIndex oldIndexes
          in and_then (send conn (CreateIndexWithSettings nextIndex settings) w) (\<lambda>w1.
             and_then (send conn (UpdateAliases (actions plan)) w1) (\<lambda>w2.
             and_then (roll_cleanup conn config (cleanup plan) w2)
                      (roll_optimize conn config (optimizes plan))))))"

subsection \<open>The process\<close>

text \<open>
  A pass over the working set: every policy that \<open>due\<close> selects is rolled, an error is
  printed and the pass goes on. \<open>now k\<close> is the clock read at the \<open>k\<close>-th policy.
\<close>

fun roll_each :: "'s Conn \<Rightarrow> parse_bytes \<Rightarrow> (IndexConfig \<Rightarrow> bool) \<Rightarrow> (nat \<Rightarrow> Time) \<Rightarrow> nat \<Rightarrow>
    IndexConfig list \<Rightarrow> 's world \<times> error list \<Rightarrow> 's world \<times> error list" where
  "roll_each conn ParseBytes due now k [] acc = acc"
| "roll_each conn ParseBytes due now k (conf # confs) (w, printed) =
    (if due conf then
       (case Roll conn ParseBytes conf (now k) w of
          (Some err, w') \<Rightarrow> roll_each conn ParseBytes due now (Suc k) confs (w', printed @ [err])
        | (None, w') \<Rightarrow> roll_each conn ParseBytes due now (Suc k) confs (w', printed))
     else roll_each conn ParseBytes due now (Suc k) confs (w, printed))"

text \<open>
  What \<^verbatim>\<open>main\<close> does once the connection exists: it leaves with an exit code
  (\<^verbatim>\<open>os.Exit(1)\<close>, code 0 when \<^verbatim>\<open>main\<close> returns, code 2 when the Go runtime
  ends the process on a panic), or it enters the loop of the daemon with its working
  set. After a load that returned an error the working set is \<^verbatim>\<open>nil\<close>.
\<close>

datatype 's outcome = Exit int "'s world" | Serving "IndexConfig list" "'s world"

definition main :: "'s Conn \<Rightarrow> parse_bytes \<Rightarrow> bool \<Rightarrow> error + SearchResult \<Rightarrow> (nat \<Rightarrow> Time) \<Rightarrow>
    's world \<Rightarrow> 's outcome" where
  "main conn ParseBytes Daemon res now w =
    (case fst (GetConfigs ParseBytes res) of
       Panicked \<Rightarrow> Exit 2 w
     | Loaded got \<Rightarrow>
        (let configs = (case got of Inl err \<Rightarrow> [] | Inr cs \<Rightarrow> cs)
         in if isl got \<and> \<not> Daemon then Exit 1 w
            else if Daemon then Serving configs w
            else Exit 0 (fst (roll_each conn ParseBytes (\<lambda>conf. True) now 0 configs (w, [])))))"

text \<open>
  One turn of the daemon's \<^verbatim>\<open>select\<close> loop, on the event it received: the loop
  goes on with a working set, or the process ends on a panic of the reload. The
  goroutines that feed the channels, and the handler of the termination signal, are not
  part of this sequential model.
\<close>

datatype event =
    WorkQ Time
  | SizeTicker "nat \<Rightarrow> Time"
  | InitQ IndexConfig Time
  | ConfigTicker "error + SearchResult"

fun daemon_turn :: "'s Conn \<Rightarrow> parse_bytes \<Rightarrow> event \<Rightarrow> IndexConfig list \<times> 's world \<Rightarrow>
    's outcome" where
  "daemon_turn conn ParseBytes (WorkQ t) (configs, w) =
     Serving configs
       (fst (roll_each conn ParseBytes (\<lambda>conf. ShouldRoll conf t) (\<lambda>k. t) 0 configs (w, [])))"
| "daemon_turn conn ParseBytes (SizeTicker now) (configs, w) =
     Serving configs (fst (roll_each conn ParseBytes RollsOnSize now 0 configs (w, [])))"
| "daemon_turn conn ParseBytes (InitQ conf now) (configs, w) =
     Serving configs (snd (Roll conn ParseBytes conf now w))"
| "daemon_turn conn ParseBytes (ConfigTicker res) (configs, w) =
     (case fst (GetConfigs ParseBytes res) of
        Panicked \<Rightarrow> Exit 2 w
      | Loaded got \<Rightarrow> Serving (case got of Inl err \<Rightarrow> [] | Inr cs \<Rightarrow> cs) w)"

subsection \<open>A model of the index store\<close>

text \<open>
  The store as the program sees it through its queries: the indices with their status
  and primary size, in the order in which a listing gives them (a new index comes
  last), and the pairs (index, alias). A
  name exists when it is an index or an alias; a listing for a pattern gives the indices
  whose name, or one of whose aliases, matches it; removing an alias that is not there
  changes nothing; deleting an index drops its aliases; a closed index keeps them.
\<close>

record es =
  es_indices :: "Index list"
  es_aliases :: "(string \<times> string) list"

fun glob :: "string \<Rightarrow> string \<Rightarrow> bool" where
  "glob [] s = (s = [])"
| "glob (p # ps) [] = (p = CHR ''*'' \<and> glob ps [])"
| "glob (p # ps) (c # cs) =
     (if p = CHR ''*'' then glob ps (c # cs) \<or> glob (p # ps) cs else p = c \<and> glob ps cs)"

definition es_exists :: "es \<Rightarrow> string \<Rightarrow> bool" where
  "es_exists s name = (name \<in> set (map Name (es_indices s)) \<or> name \<in> set (map snd (es_aliases s)))"

definition es_cat :: "es \<Rightarrow> string \<Rightarrow> Index list" where
  "es_cat s pattern =
    filter (\<lambda>i. glob pattern (Name i) \<or>
                (\<exists>a \<in> set (es_aliases s). fst a = Name i \<and> glob pattern (snd a)))
      (es_indices s)"

definition es_alias :: "alias_action \<Rightarrow> (string \<times> string) list \<Rightarrow> (string \<times> string) list" where
  "es_alias a als =
    (case a of (action, index, alias) \<Rightarrow>
       if action = ''add'' then (if (index, alias) \<in> set als then als else als @ [(index, alias)])
       else if action = ''remove'' then removeAll (index, alias) als
       else als)"

fun es_apply :: "request \<Rightarrow> es \<Rightarrow> es" where
  "es_apply (CreateIndexWithSettings n d) s =
     s\<lparr>es_indices := es_indices s @ [\<lparr>Name = n, Status = ''open'', PriSize = 0\<rparr>]\<rparr>"
| "es_apply (UpdateAliases acts) s = s\<lparr>es_aliases := fold es_alias acts (es_aliases s)\<rparr>"
| "es_apply (DeleteIndex ns) s =
     s\<lparr>es_indices := filter (\<lambda>i. Name i \<notin> set ns) (es_indices s),
       es_aliases := filter (\<lambda>a. fst a \<notin> set ns) (es_aliases s)\<rparr>"
| "es_apply (Flush ns) s = s"
| "es_apply (CloseIndex ns) s =
     s\<lparr>es_indices := map (\<lambda>i. if Name i \<in> set ns then i\<lparr>Status := ''close''\<rparr> else i) (es_indices s)\<rparr>"
| "es_apply (PutSettings ns d) s = s"
| "es_apply (OptimizeIndices m ns) s = s"

text \<open>The store refuses to create an index under a name that exists.\<close>

fun es_rejects :: "es \<Rightarrow> request \<Rightarrow> bool" where
  "es_rejects s (CreateIndexWithSettings n d) = es_exists s n"
| "es_rejects s r = False"

text \<open>
  A request fails when the store refuses it or when \<open>fails\<close> says so (the network, a
  timeout); a failed request leaves the store as it was.
\<close>

definition es_command :: "(es \<Rightarrow> request \<Rightarrow> bool) \<Rightarrow> es \<Rightarrow> request \<Rightarrow> error option \<times> es" where
  "es_command fails s r =
    (if fails s r \<or> es_rejects s r then (Some (Error ''request failed''), s)
     else (None, es_apply r s))"

text \<open>
  The two queries can fail as well, when \<open>lost\<close> says so. The program cannot tell: it
  drops the error beside the answer of \<^verbatim>\<open>ExistsIndex\<close>, which is then \<open>False\<close>, and
  \<^verbatim>\<open>GetCatIndexInfo\<close> has no error to return, its listing is then empty.
\<close>

datatype query = Exists string | Listing string

definition es_conn :: "(es \<Rightarrow> request \<Rightarrow> bool) \<Rightarrow> (es \<Rightarrow> query \<Rightarrow> bool) \<Rightarrow> es Conn" where
  "es_conn fails lost =
    \<lparr>ExistsIndex = (\<lambda>s name. \<not> lost s (Exists name) \<and> es_exists s name),
     GetCatIndexInfo = (\<lambda>s pattern. if lost s (Listing pattern) then [] else es_cat s pattern),
     DoCommand = es_command fails\<rparr>"

text \<open>The network on which no request fails, and the one on which no query is lost.\<close>

definition never :: "es \<Rightarrow> request \<Rightarrow> bool" where
  "never s r = False"

definition none_lost :: "es \<Rightarrow> query \<Rightarrow> bool" where
  "none_lost s q = False"

subsection \<open>The roll as a script of requests\<close>

text \<open>
  Vocabulary for the properties. The write handle of a policy is the alias named by its
  target, the search handle the alias with the search suffix.
\<close>

definition write_alias :: "IndexConfig \<Rightarrow> string" where
  "write_alias config = TargetIndex config"

definition search_alias :: "IndexConfig \<Rightarrow> string" where
  "search_alias config = TargetIndex config @ ''_'' @ SearchSuffix config"

text \<open>
  The number of old partitions, out of \<open>n\<close>, that fall out of the search window: all
  but the newest \<open>fanout - 1\<close>. Lemma \<open>roll_plan_eq\<close> shows that the loop retires
  exactly the first that many.
\<close>

definition retire_count :: "IndexConfig \<Rightarrow> nat \<Rightarrow> nat" where
  "retire_count config n = nat (min (int n) (int n - IndexesToAliasForSearch config + 1))"

text \<open>Whether a retired partition is queued for the cleanup.\<close>

definition cleaned :: "IndexConfig \<Rightarrow> Index \<Rightarrow> bool" where
  "cleaned config oldIndex =
    (DeleteOldIndexes config \<or> CloseOldIndexes config \<and> Status oldIndex = ''open'')"

text \<open>
  The requests of the cleanup block and of the demotion block, and the requests of a
  whole roll that passed the gate, in the order in which they are sent.
\<close>

definition cleanup_requests :: "IndexConfig \<Rightarrow> string list \<Rightarrow> request list" where
  "cleanup_requests config clean =
    (if clean = [] then []
     else if DeleteOldIndexes config then [DeleteIndex clean]
     else if CloseOldIndexes config then [Flush clean, CloseIndex clean]
     else [])"

definition demotion_requests :: "IndexConfig \<Rightarrow> string list \<Rightarrow> request list" where
  "demotion_requests config opts =
    (if opts = [] then []
     else (case SettingsOnRoll config of Some d \<Rightarrow> [PutSettings opts d] | None \<Rightarrow> []) @
          (if OptimizeOnRoll config
           then [OptimizeIndices
                   (if OptimizeMaxSegments config \<noteq> 0 then Some (OptimizeMaxSegments config) else None)
                   opts]
           else []))"

definition roll_requests :: "IndexConfig \<Rightarrow> string \<Rightarrow> Index list \<Rightarrow> request list" where
  "roll_requests config nextIndex oldIndexes =
    (let plan = roll_plan config nextIndex oldIndexes
     in [CreateIndexWithSettings nextIndex (case Settings config of None \<Rightarrow> [] | Some d \<Rightarrow> d),
         UpdateAliases (actions plan)] @
        cleanup_requests config (cleanup plan) @
        demotion_requests config (optimizes plan))"

text \<open>Sending a list of requests in order, up to the first that fails.\<close>

fun send_all :: "'s Conn \<Rightarrow> request list \<Rightarrow> 's world \<Rightarrow> error option \<times> 's world" where
  "send_all conn [] w = (None, w)"
| "send_all conn (r # rs) w = and_then (send conn r w) (send_all conn rs)"

text \<open>The requests of the demotion block are the ones that pass this test.\<close>

fun is_demotion :: "request \<Rightarrow> bool" where
  "is_demotion (PutSettings ns d) = True"
| "is_demotion (OptimizeIndices m ns) = True"
| "is_demotion r = False"

subsection \<open>Reading the store model\<close>

text \<open>
  The names of the indices of a store, and the indices that hold a given alias, in the
  order of the store.
\<close>

definition es_names :: "es \<Rightarrow> string set" where
  "es_names s = set (map Name (es_indices s))"




text \<open>
  Failing networks: one loses every creation, one every alias batch, one every flush;
  one loses every existence query, one every listing.
\<close>

fun create_fails :: "es \<Rightarrow> request \<Rightarrow> bool" where
  "create_fails s (CreateIndexWithSettings n d) = True"
| "create_fails s r = False"



fun exists_lost :: "es \<Rightarrow> query \<Rightarrow> bool" where
  "exists_lost s (Exists name) = True"
| "exists_lost s q = False"


subsection \<open>Sample data\<close>

text \<open>
  The policy of the README's example, with the unit and the increment left open, and
  the values of \<^verbatim>\<open>humanize.ParseBytes\<close> at three strings: 20 KB are 20000 bytes and
  10 EB are \<open>10 ^ 19\<close> bytes (decimal units), and for a number before an unknown
  unit the library's error names the unit in lower case. Nothing below applies the table
  to another string; there it answers with an error of its own.
\<close>

definition sample_policy :: "string \<Rightarrow> int \<Rightarrow> IndexConfig" where
  "sample_policy unit k =
    \<lparr>Id_conf = ''snowball'', Settings = None, SettingsOnRoll = None, TargetIndex = ''snowball'',
     RollIncrement = k, RollUnit = unit, RollSize = [], IndexesToAliasForSearch = 2,
     SearchSuffix = ''search'', DeleteOldIndexes = False, CloseOldIndexes = False,
     OptimizeOnRoll = False, OptimizeMaxSegments = 0\<rparr>"

definition sample_time :: Time where
  "sample_time = \<lparr>Year = 2016, Month = 6, Day = 3, Hour = 0, Minute = 0, Second = 0, YearDay = 155\<rparr>"

definition humanize_sample :: parse_bytes where
  "humanize_sample s =
    (if s = ''20KB'' then Inr 20000
     else if s = ''10EB'' then Inr 10000000000000000000
     else if s = ''20XB'' then Inl (Error ''unhandled size name: xb'')
     else Inl (Error ''size outside the table''))"

text \<open>
  A stored document that decodes, given by its id and the struct it decodes to, and the
  policy that the loader makes of it before validating.
\<close>

definition decodable_hit :: "string \<times> IndexConfig \<Rightarrow> Hit" where
  "decodable_hit doc = \<lparr>HitId = fst doc, Source = Some (Decodes (snd doc))\<rparr>"

definition candidate :: "string \<times> IndexConfig \<Rightarrow> IndexConfig" where
  "candidate doc = SetDefaults ((snd doc)\<lparr>Id_conf := fst doc\<rparr>)"

definition sample_docs :: "(string \<times> IndexConfig) list" where
  "sample_docs =
    [(''snowball'', (sample_policy ''minutes'' 3)\<lparr>IndexesToAliasForSearch := 0, TargetIndex := []\<rparr>),
     (''broken'', sample_policy [] 1),
     (''sized'', (sample_policy ''bytes'' 0)\<lparr>RollSize := ''20KB''\<rparr>),
     (''unsized'', (sample_policy ''bytes'' 0)\<lparr>RollSize := ''20XB''\<rparr>)]"

definition decode_error :: error where
  "decode_error = Error ''json: cannot unmarshal string into Go value of type int''"

definition undecodable_hit :: Hit where
  "undecodable_hit = \<lparr>HitId = ''garbled'', Source = Some (Undecodable decode_error)\<rparr>"

text \<open>A hit that came without its document.\<close>

definition sourceless_hit :: Hit where
  "sourceless_hit = \<lparr>HitId = ''bare'', Source = None\<rparr>"

text \<open>
  A size-based policy over one partition of 1000 bytes that holds both handles.
\<close>

definition sized_policy :: "string \<Rightarrow> IndexConfig" where
  "sized_policy sz = (sample_policy ''bytes'' 0)\<lparr>RollSize := sz\<rparr>"

definition small_store :: es where
  "small_store =
    \<lparr>es_indices = [\<lparr>Name = ''snowball_2016-06-03-17-38-53'', Status = ''open'', PriSize = 1000\<rparr>],
     es_aliases = [(''snowball_2016-06-03-17-38-53'', ''snowball''),
                   (''snowball_2016-06-03-17-38-53'', ''snowball_search'')]\<rparr>"

text \<open>
  The yearly policy of the README's walk-through, with a search fanout of 2: a store
  that holds its partitions of 2016 and 2017 with the handles as two rolls leave them
  (the listing gives 2017 first), the empty store, and the store in which the partition
  of 2017 exists without any alias.
\<close>

definition logs_policy :: IndexConfig where
  "logs_policy =
    \<lparr>Id_conf = ''logs'', Settings = Some [(''index.number_of_replicas'', ''1'')],
     SettingsOnRoll = Some [(''index.routing.allocation.include.box_type'', ''medium'')],
     TargetIndex = ''logs'', RollIncrement = 1, RollUnit = ''years'', RollSize = [],
     IndexesToAliasForSearch = 2, SearchSuffix = ''search'', DeleteOldIndexes = False,
     CloseOldIndexes = True, OptimizeOnRoll = True, OptimizeMaxSegments = 2\<rparr>"

definition logs_store :: es where
  "logs_store =
    \<lparr>es_indices = [\<lparr>Name = ''logs_2017'', Status = ''open'', PriSize = 2048\<rparr>,
                   \<lparr>Name = ''logs_2016'', Status = ''open'', PriSize = 4096\<rparr>],
     es_aliases = [(''logs_2016'', ''logs_search''), (''logs_2017'', ''logs''),
                   (''logs_2017'', ''logs_search'')]\<rparr>"

definition empty_store :: es where
  "empty_store = \<lparr>es_indices = [], es_aliases = []\<rparr>"


definition new_year :: "int \<Rightarrow> Time" where
  "new_year y = \<lparr>Year = y, Month = 1, Day = 1, Hour = 0, Minute = 0, Second = 0, YearDay = 1\<rparr>"

text \<open>A clock that stands still.\<close>

definition always :: "Time \<Rightarrow> nat \<Rightarrow> Time" where
  "always t k = t"

text \<open>
  The world in which the yearly policy is rolled at the start of 2018, and the world
  that this roll leaves when no request fails (lemma \<open>logs_roll\<close>).
\<close>

definition logs_world :: "es world" where
  "logs_world = \<lparr>store = logs_store, issued = []\<rparr>"

definition logs_rolled :: "es world" where
  "logs_rolled =
    \<lparr>store =
       \<lparr>es_indices =
          [\<lparr>Name = ''logs_2017'', Status = ''open'', PriSize = 2048\<rparr>,
           \<lparr>Name = ''logs_2016'', Status = ''close'', PriSize = 4096\<rparr>,
           \<lparr>Name = ''logs_2018'', Status = ''open'', PriSize = 0\<rparr>],
        es_aliases =
          [(''logs_2017'', ''logs_search''), (''logs_2018'', ''logs''),
           (''logs_2018'', ''logs_search'')]\<rparr>,
     issued =
       [CreateIndexWithSettings ''logs_2018'' [(''index.number_of_replicas'', ''1'')],
        UpdateAliases
         [(''add'', ''logs_2018'', ''logs''), (''add'', ''logs_2018'', ''logs_search''),
          (''remove'', ''logs_2016'', ''logs''), (''remove'', ''logs_2016'', ''logs_search''),
          (''remove'', ''logs_2017'', ''logs'')],
        Flush [''logs_2016''], CloseIndex [''logs_2016''],
        PutSettings [''logs_2017''] [(''index.routing.allocation.include.box_type'', ''medium'')],
        OptimizeIndices (Some 2) [''logs_2017'']]\<rparr>"

text \<open>
  The same roll when every flush fails: the partition of 2016 is retired but stays open,
  and the roll has stopped there.
\<close>

definition logs_unflushed :: "es world" where
  "logs_unflushed =
    \<lparr>store =
       \<lparr>es_indices =
          [\<lparr>Name = ''logs_2017'', Status = ''open'', PriSize = 2048\<rparr>,
           \<lparr>Name = ''logs_2016'', Status = ''open'', PriSize = 4096\<rparr>,
           \<lparr>Name = ''logs_2018'', Status = ''open'', PriSize = 0\<rparr>],
        es_aliases =
          [(''logs_2017'', ''logs_search''), (''logs_2018'', ''logs''),
           (''logs_2018'', ''logs_search'')]\<rparr>,
     issued =
       [CreateIndexWithSettings ''logs_2018'' [(''index.number_of_replicas'', ''1'')],
        UpdateAliases
         [(''add'', ''logs_2018'', ''logs''), (''add'', ''logs_2018'', ''logs_search''),
          (''remove'', ''logs_2016'', ''logs''), (''remove'', ''logs_2016'', ''logs_search''),
          (''remove'', ''logs_2017'', ''logs'')],
        Flush [''logs_2016'']]\<rparr>"









definition july_2018 :: Time where
  "july_2018 = \<lparr>Year = 2018, Month = 7, Day = 1, Hour = 0, Minute = 0, Second = 0, YearDay = 182\<rparr>"

section \<open>Properties\<close>

subsection \<open>The time rule\<close>

lemma go_rem_eq_0: "b \<noteq> 0 \<Longrightarrow> go_rem a b = 0 \<longleftrightarrow> a mod b = 0"
proof -
  assume b: "b \<noteq> 0"
  have "go_rem a b = 0 \<longleftrightarrow> a = 0 \<or> \<bar>a\<bar> mod \<bar>b\<bar> = 0"
    by (auto simp: go_rem_def sgn_if)
  also have "\<dots> \<longleftrightarrow> \<bar>b\<bar> dvd \<bar>a\<bar>"
    by (auto simp: dvd_eq_mod_eq_0)
  also have "\<dots> \<longleftrightarrow> a mod b = 0"
    by (simp add: dvd_eq_mod_eq_0 [symmetric])
  finally show ?thesis .
qed

text \<open>
  Claim C2. With a positive increment \<open>k\<close>, a \<^verbatim>\<open>minutes\<close> policy is due at \<open>t\<close> iff
  the second of \<open>t\<close> is 0 and \<open>k\<close> divides its minute; an \<^verbatim>\<open>hours\<close> policy iff second
  and minute are 0 and \<open>k\<close> divides the hour; \<^verbatim>\<open>days\<close>, \<^verbatim>\<open>months\<close> and
  \<^verbatim>\<open>years\<close> policies iff second, minute and hour are 0 and \<open>k\<close> divides the day of
  the year, the month, the year. A \<^verbatim>\<open>bytes\<close> policy is never due by the clock.
\<close>

theorem ShouldRoll_boundary:
  "(0 < RollIncrement config \<longrightarrow>
      (RollUnit config = ''minutes'' \<longrightarrow>
         ShouldRoll config t = (Second t = 0 \<and> Minute t mod RollIncrement config = 0)) \<and>
      (RollUnit config = ''hours'' \<longrightarrow>
         ShouldRoll config t = (Second t = 0 \<and> Minute t = 0 \<and> Hour t mod RollIncrement config = 0)) \<and>
      (RollUnit config = ''days'' \<longrightarrow>
         ShouldRoll config t =
           (Second t = 0 \<and> Minute t = 0 \<and> Hour t = 0 \<and> YearDay t mod RollIncrement config = 0)) \<and>
      (RollUnit config = ''months'' \<longrightarrow>
         ShouldRoll config t =
           (Second t = 0 \<and> Minute t = 0 \<and> Hour t = 0 \<and> Month t mod RollIncrement config = 0)) \<and>
      (RollUnit config = ''years'' \<longrightarrow>
         ShouldRoll config t =
           (Second t = 0 \<and> Minute t = 0 \<and> Hour t = 0 \<and> Year t mod RollIncrement config = 0))) \<and>
   (RollUnit config = ''bytes'' \<longrightarrow> \<not> ShouldRoll config t)"
  by (auto simp: ShouldRoll_def RollsOnSize_def Let_def go_rem_eq_0)

theorem ShouldRoll_boundary_witness:
  "ShouldRoll (sample_policy ''minutes'' 3) sample_time \<and>
   \<not> ShouldRoll (sample_policy ''minutes'' 3) (sample_time\<lparr>Minute := 4\<rparr>) \<and>
   ShouldRoll (sample_policy ''hours'' 3) sample_time \<and>
   \<not> ShouldRoll (sample_policy ''hours'' 3) (sample_time\<lparr>Hour := 4\<rparr>) \<and>
   ShouldRoll (sample_policy ''days'' 5) sample_time \<and>
   \<not> ShouldRoll (sample_policy ''days'' 4) sample_time \<and>
   ShouldRoll (sample_policy ''months'' 3) sample_time \<and>
   \<not> ShouldRoll (sample_policy ''months'' 4) sample_time \<and>
   ShouldRoll (sample_policy ''years'' 4) sample_time \<and>
   \<not> ShouldRoll (sample_policy ''years'' 5) sample_time \<and>
   \<not> ShouldRoll (sample_policy ''bytes'' 1) sample_time"
  using ShouldRoll_boundary [of "sample_policy ''minutes'' 3" sample_time]
    ShouldRoll_boundary [of "sample_policy ''minutes'' 3" "sample_time\<lparr>Minute := 4\<rparr>"]
    ShouldRoll_boundary [of "sample_policy ''hours'' 3" sample_time]
    ShouldRoll_boundary [of "sample_policy ''hours'' 3" "sample_time\<lparr>Hour := 4\<rparr>"]
    ShouldRoll_boundary [of "sample_policy ''days'' 5" sample_time]
    ShouldRoll_boundary [of "sample_policy ''days'' 4" sample_time]
    ShouldRoll_boundary [of "sample_policy ''months'' 3" sample_time]
    ShouldRoll_boundary [of "sample_policy ''months'' 4" sample_time]
    ShouldRoll_boundary [of "sample_policy ''years'' 4" sample_time]
    ShouldRoll_boundary [of "sample_policy ''years'' 5" sample_time]
    ShouldRoll_boundary [of "sample_policy ''bytes'' 1" sample_time]
  by (simp add: sample_policy_def sample_time_def)

subsection \<open>Loading\<close>

lemma SetDefaults_fanout:
  "IndexesToAliasForSearch (SetDefaults c) =
     (if IndexesToAliasForSearch c = 0 then 2 else IndexesToAliasForSearch c)"
  by (simp add: SetDefaults_def Let_def)

lemma Validate_fanout: "Validate pb c = None \<Longrightarrow> 0 \<le> IndexesToAliasForSearch c"
  by (auto simp: Validate_def split: if_splits)

lemma load_hits_all:
  "load_hits pb hits configs printed = (Loaded (Inr cs), pr) \<Longrightarrow> \<forall>c \<in> set configs. P c \<Longrightarrow>
   (\<And>c. Validate pb (SetDefaults c) = None \<Longrightarrow> P (SetDefaults c)) \<Longrightarrow> \<forall>c \<in> set cs. P c"
proof (induction hits arbitrary: configs printed)
  case Nil
  then show ?case by simp
next
  case (Cons hit hits)
  from Cons.prems(1) obtain src where src: "Source hit = Some src"
    by (cases "Source hit") simp_all
  show ?case
  proof (cases "json_Unmarshal src")
    case (Inl e)
    with src Cons.prems(1) show ?thesis by simp
  next
    case (Inr d)
    let ?c = "SetDefaults (d\<lparr>Id_conf := HitId hit\<rparr>)"
    show ?thesis
    proof (cases "Validate pb ?c")
      case None
      with src Inr Cons.prems(1)
      have "load_hits pb hits (configs @ [?c]) printed = (Loaded (Inr cs), pr)" by (simp add: Let_def)
      moreover have "\<forall>c \<in> set (configs @ [?c]). P c"
        using Cons.prems(2) Cons.prems(3) [OF None] by simp
      ultimately show ?thesis using Cons.IH Cons.prems(3) by blast
    next
      case (Some e)
      with src Inr Cons.prems(1)
      have "load_hits pb hits configs (printed @ [e]) = (Loaded (Inr cs), pr)" by (simp add: Let_def)
      then show ?thesis using Cons.IH Cons.prems(2) Cons.prems(3) by blast
    qed
  qed
qed

lemma loaded_fanout:
  "GetConfigs pb res = (Loaded (Inr configs), printed) \<Longrightarrow> c \<in> set configs \<Longrightarrow>
   1 \<le> IndexesToAliasForSearch c"
proof -
  assume g: "GetConfigs pb res = (Loaded (Inr configs), printed)" and c: "c \<in> set configs"
  have pos: "1 \<le> IndexesToAliasForSearch (SetDefaults x)" if "Validate pb (SetDefaults x) = None" for x
    using Validate_fanout [OF that] by (simp add: SetDefaults_fanout split: if_splits)
  from g obtain r :: SearchResult where "load_hits pb (HitsHits r) [] [] = (Loaded (Inr configs), printed)"
    by (auto simp: GetConfigs_def split: sum.splits if_splits)
  from load_hits_all [OF this, where P = "\<lambda>c. 1 \<le> IndexesToAliasForSearch c"] pos c
  show ?thesis by simp
qed

text \<open>
  Claim C10. The defaulting step turns a search fanout of 0 into 2 and leaves any other
  value, and it runs before the validation, which refuses a negative fanout: every
  policy of a loaded working set has a search fanout of at least 1.
\<close>

theorem loaded_fanout_positive:
  "IndexesToAliasForSearch (SetDefaults c0) =
     (if IndexesToAliasForSearch c0 = 0 then 2 else IndexesToAliasForSearch c0) \<and>
   (GetConfigs pb res = (Loaded (Inr configs), printed) \<and> c \<in> set configs \<longrightarrow>
      1 \<le> IndexesToAliasForSearch c)"
  using loaded_fanout [of pb res configs printed c] by (simp add: SetDefaults_fanout)

theorem loaded_fanout_positive_witness:
  "fst (GetConfigs humanize_sample (Inr \<lparr>HitsTotal = 4, HitsHits = map decodable_hit sample_docs\<rparr>)) =
     Loaded (Inr [candidate (sample_docs ! 0), candidate (sample_docs ! 2)]) \<and>
   IndexesToAliasForSearch (snd (sample_docs ! 0)) = 0 \<and>
   IndexesToAliasForSearch (candidate (sample_docs ! 0)) = 2 \<and>
   1 \<le> IndexesToAliasForSearch (candidate (sample_docs ! 0))"
  using loaded_fanout_positive [of "snd (sample_docs ! 0)" humanize_sample
      "Inr \<lparr>HitsTotal = 4, HitsHits = map decodable_hit sample_docs\<rparr>"
      "[candidate (sample_docs ! 0), candidate (sample_docs ! 2)]"
      "snd (GetConfigs humanize_sample (Inr \<lparr>HitsTotal = 4, HitsHits = map decodable_hit sample_docs\<rparr>))"
      "candidate (sample_docs ! 0)"]
  by (simp add: GetConfigs_def sample_docs_def decodable_hit_def candidate_def json_Unmarshal_def
      SetDefaults_def Validate_def rollUnits_def sample_policy_def humanize_sample_def Let_def)

text \<open>
  The documents that decode are loaded one after the other, up to the first hit that
  does not decode or has no source.
\<close>

lemma load_hits_decodable_then:
  "load_hits pb (map decodable_hit docs @ hits) configs printed =
     load_hits pb hits
       (configs @ filter (\<lambda>c. Validate pb c = None) (map candidate docs))
       (printed @ List.map_filter (Validate pb) (map candidate docs))"
proof (induction docs arbitrary: configs printed)
  case Nil
  then show ?case by (simp add: List.map_filter_simps)
next
  case (Cons doc docs)
  show ?case
  proof (cases "Validate pb (candidate doc)")
    case None
    then show ?thesis
      using Cons.IH [of "configs @ [candidate doc]" printed]
      by (simp add: decodable_hit_def json_Unmarshal_def candidate_def Let_def List.map_filter_simps)
  next
    case (Some e)
    then show ?thesis
      using Cons.IH [of configs "printed @ [e]"]
      by (simp add: decodable_hit_def json_Unmarshal_def candidate_def Let_def List.map_filter_simps)
  qed
qed

lemma GetConfigs_decodable:
  "HitsTotal r \<noteq> 0 \<Longrightarrow> HitsHits r = map decodable_hit docs \<Longrightarrow>
   GetConfigs pb (Inr r) =
     (Loaded (Inr (filter (\<lambda>c. Validate pb c = None) (map candidate docs))),
      List.map_filter (Validate pb) (map candidate docs))"
  using load_hits_decodable_then [of pb docs "[]" "[]" "[]"] by (simp add: GetConfigs_def)

lemma GetConfigs_undecodable:
  "HitsTotal r \<noteq> 0 \<Longrightarrow>
   HitsHits r = map decodable_hit docs @ \<lparr>HitId = i, Source = Some (Undecodable e)\<rparr> # rest \<Longrightarrow>
   GetConfigs pb (Inr r) = (Loaded (Inl e), List.map_filter (Validate pb) (map candidate docs))"
  using load_hits_decodable_then
    [of pb docs "\<lparr>HitId = i, Source = Some (Undecodable e)\<rparr> # rest" "[]" "[]"]
  by (simp add: GetConfigs_def json_Unmarshal_def)

lemma GetConfigs_sourceless:
  "HitsTotal r \<noteq> 0 \<Longrightarrow>
   HitsHits r = map decodable_hit docs @ \<lparr>HitId = i, Source = None\<rparr> # rest \<Longrightarrow>
   GetConfigs pb (Inr r) = (Panicked, List.map_filter (Validate pb) (map candidate docs))"
  using load_hits_decodable_then [of pb docs "\<lparr>HitId = i, Source = None\<rparr> # rest" "[]" "[]"]
  by (simp add: GetConfigs_def)

text \<open>
  Claim C7, as the program has it. When every stored document decodes, the load
  succeeds: its working set holds, in the order of the documents, the policy of each
  document that passes the validation, and each validation error of the others is
  printed. When a document that does not decode follows documents that decode, the
  load returns the decoder's error for that document and no policy at all, whatever
  comes after it.
\<close>

theorem GetConfigs_drops_invalid:
  "(HitsTotal r \<noteq> 0 \<and> HitsHits r = map decodable_hit docs \<longrightarrow>
      GetConfigs pb (Inr r) =
        (Loaded (Inr (filter (\<lambda>c. Validate pb c = None) (map candidate docs))),
         List.map_filter (Validate pb) (map candidate docs))) \<and>
   (HitsTotal r \<noteq> 0 \<and>
    HitsHits r = map decodable_hit docs @ \<lparr>HitId = i, Source = Some (Undecodable e)\<rparr> # rest \<longrightarrow>
      GetConfigs pb (Inr r) =
        (Loaded (Inl e), List.map_filter (Validate pb) (map candidate docs)))"
  using GetConfigs_decodable [of r docs pb] GetConfigs_undecodable [of r docs i e rest pb]
  by blast

theorem GetConfigs_drops_invalid_witness:
  "GetConfigs humanize_sample (Inr \<lparr>HitsTotal = 4, HitsHits = map decodable_hit sample_docs\<rparr>) =
     (Loaded (Inr [candidate (sample_docs ! 0), candidate (sample_docs ! 2)]),
      [Error ''configuration id[broken] is invalid. rollUnit is required.'',
       Error ''unhandled size name: xb'']) \<and>
   GetConfigs humanize_sample
     (Inr \<lparr>HitsTotal = 6,
           HitsHits = map decodable_hit sample_docs @
             \<lparr>HitId = ''garbled'', Source = Some (Undecodable decode_error)\<rparr> # [sourceless_hit]\<rparr>) =
     (Loaded (Inl decode_error),
      [Error ''configuration id[broken] is invalid. rollUnit is required.'',
       Error ''unhandled size name: xb''])"
  using GetConfigs_drops_invalid [of "\<lparr>HitsTotal = 4, HitsHits = map decodable_hit sample_docs\<rparr>"
      sample_docs humanize_sample "''garbled''" decode_error "[sourceless_hit]"]
    GetConfigs_drops_invalid [of "\<lparr>HitsTotal = 6,
           HitsHits = map decodable_hit sample_docs @
             \<lparr>HitId = ''garbled'', Source = Some (Undecodable decode_error)\<rparr> # [sourceless_hit]\<rparr>"
      sample_docs humanize_sample "''garbled''" decode_error "[sourceless_hit]"]
  by (simp add: sample_docs_def candidate_def
      SetDefaults_def Validate_def rollUnits_def sample_policy_def humanize_sample_def Let_def
      List.map_filter_simps)

text \<open>
  The claim as the specification words it fails: the first document alone loads into a
  policy; the same document beside one that does not decode yields the decoder's error
  and no policy; beside a hit without a source it yields a panic.
\<close>

theorem GetConfigs_undecodable_counterexample:
  "fst (GetConfigs humanize_sample
     (Inr \<lparr>HitsTotal = 1, HitsHits = [decodable_hit (sample_docs ! 0)]\<rparr>)) =
     Loaded (Inr [candidate (sample_docs ! 0)]) \<and>
   fst (GetConfigs humanize_sample
     (Inr \<lparr>HitsTotal = 2, HitsHits = [decodable_hit (sample_docs ! 0), undecodable_hit]\<rparr>)) =
     Loaded (Inl decode_error) \<and>
   fst (GetConfigs humanize_sample
     (Inr \<lparr>HitsTotal = 2, HitsHits = [decodable_hit (sample_docs ! 0), sourceless_hit]\<rparr>)) =
     Panicked"
  by (simp add: GetConfigs_def sample_docs_def decodable_hit_def candidate_def json_Unmarshal_def
      undecodable_hit_def sourceless_hit_def
      SetDefaults_def Validate_def rollUnits_def sample_policy_def humanize_sample_def Let_def)

subsection \<open>The plan of a roll\<close>

lemma roll_walk_append:
  "roll_walk c len i (xs @ ys) st = roll_walk c len (i + length xs) ys (roll_walk c len i xs st)"
  by (induction xs arbitrary: i st) simp_all

lemma roll_walk_retiring:
  "xs = [] \<or> IndexesToAliasForSearch c \<le> searchIndexes st - int (length xs) \<Longrightarrow>
   roll_walk c len i xs st =
     \<lparr>actions = actions st @ concat (map (\<lambda>x. [(''remove'', Name x, write_alias c),
                                                (''remove'', Name x, search_alias c)]) xs),
      cleanup = cleanup st @ map Name (filter (cleaned c) xs),
      optimizes = optimizes st,
      searchIndexes = searchIndexes st - int (length xs)\<rparr>"
proof (induction xs arbitrary: i st)
  case Nil
  then show ?case by simp
next
  case (Cons x xs)
  let ?st = "roll_body c len i x st"
  from Cons.prems have le: "IndexesToAliasForSearch c \<le> searchIndexes st - 1 - int (length xs)" by simp
  then have body: "?st =
     \<lparr>actions = actions st @ [(''remove'', Name x, write_alias c), (''remove'', Name x, search_alias c)],
      cleanup = cleanup st @ (if cleaned c x then [Name x] else []),
      optimizes = optimizes st,
      searchIndexes = searchIndexes st - 1\<rparr>"
    by (simp add: roll_body_def Let_def UpdateAliasAction_def cleaned_def write_alias_def search_alias_def)
  have "xs = [] \<or> IndexesToAliasForSearch c \<le> searchIndexes ?st - int (length xs)"
    using le by (simp add: body)
  from Cons.IH [OF this] show ?case by (simp add: body)
qed

lemma roll_walk_keeping:
  "xs = [] \<or> searchIndexes st - 1 < IndexesToAliasForSearch c \<Longrightarrow> i + length xs = len \<Longrightarrow>
   roll_walk c len i xs st =
     \<lparr>actions = actions st @ map (\<lambda>x. (''remove'', Name x, write_alias c)) xs,
      cleanup = cleanup st,
      optimizes = optimizes st @
        (if xs \<noteq> [] \<and> (OptimizeOnRoll c \<or> SettingsOnRoll c \<noteq> None) then [Name (last xs)] else []),
      searchIndexes = searchIndexes st\<rparr>"
proof (induction xs arbitrary: i st)
  case Nil
  then show ?case by simp
next
  case (Cons x xs)
  let ?st = "roll_body c len i x st"
  from Cons.prems have lt: "searchIndexes st - 1 < IndexesToAliasForSearch c" by simp
  have last: "(int i = int len - 1) = (xs = [])" using Cons.prems(2) by auto
  have body: "?st =
     \<lparr>actions = actions st @ [(''remove'', Name x, write_alias c)],
      cleanup = cleanup st,
      optimizes = optimizes st @
        (if xs = [] \<and> (OptimizeOnRoll c \<or> SettingsOnRoll c \<noteq> None) then [Name x] else []),
      searchIndexes = searchIndexes st\<rparr>"
    using lt by (simp add: roll_body_def Let_def UpdateAliasAction_def write_alias_def last)
  have "xs = [] \<or> searchIndexes ?st - 1 < IndexesToAliasForSearch c"
    using lt by (simp add: body)
  moreover have "Suc i + length xs = len" using Cons.prems(2) by simp
  ultimately show ?case using Cons.IH [of ?st "Suc i"] by (auto simp: body)
qed

text \<open>
  The loop in closed form: walking the old partitions oldest first, it retires the
  first \<open>retire_count\<close> of them and keeps the rest, and it queues the newest old
  partition for demotion when that one is kept.
\<close>

lemma roll_plan_eq:
  "roll_plan c nextIndex old =
     \<lparr>actions = [(''add'', nextIndex, write_alias c), (''add'', nextIndex, search_alias c)] @
        concat (map (\<lambda>x. [(''remove'', Name x, write_alias c), (''remove'', Name x, search_alias c)])
                  (take (retire_count c (length old)) old)) @
        map (\<lambda>x. (''remove'', Name x, write_alias c)) (drop (retire_count c (length old)) old),
      cleanup = map Name (filter (cleaned c) (take (retire_count c (length old)) old)),
      optimizes =
        (if retire_count c (length old) < length old \<and> (OptimizeOnRoll c \<or> SettingsOnRoll c \<noteq> None)
         then [Name (last old)] else []),
      searchIndexes = 1 + int (length old) - int (retire_count c (length old))\<rparr>"
proof -
  let ?k = "retire_count c (length old)"
  let ?st0 = "\<lparr>actions = [(''add'', nextIndex, write_alias c), (''add'', nextIndex, search_alias c)],
           cleanup = [], optimizes = [], searchIndexes = 1 + int (length old)\<rparr>"
  have k: "?k \<le> length old" by (simp add: retire_count_def)
  have split: "roll_plan c nextIndex old =
      roll_walk c (length old) ?k (drop ?k old) (roll_walk c (length old) 0 (take ?k old) ?st0)"
    using roll_walk_append [of c "length old" 0 "take ?k old" "drop ?k old" ?st0] k
    by (simp add: roll_plan_def UpdateAliasAction_def write_alias_def search_alias_def min_absorb2)
  have "take ?k old = [] \<or> IndexesToAliasForSearch c \<le> searchIndexes ?st0 - int (length (take ?k old))"
    by (auto simp: retire_count_def min_def split: if_splits)
  note first = roll_walk_retiring [OF this, of "length old" 0]
  let ?st1 = "roll_walk c (length old) 0 (take ?k old) ?st0"
  have "drop ?k old = [] \<or> searchIndexes ?st1 - 1 < IndexesToAliasForSearch c"
    unfolding first by (auto simp: retire_count_def min_def split: if_splits)
  moreover have "?k + length (drop ?k old) = length old" using k by simp
  ultimately have second: "roll_walk c (length old) ?k (drop ?k old) ?st1 =
     \<lparr>actions = actions ?st1 @ map (\<lambda>x. (''remove'', Name x, write_alias c)) (drop ?k old),
      cleanup = cleanup ?st1,
      optimizes = optimizes ?st1 @
        (if drop ?k old \<noteq> [] \<and> (OptimizeOnRoll c \<or> SettingsOnRoll c \<noteq> None) then [Name (last (drop ?k old))] else []),
      searchIndexes = searchIndexes ?st1\<rparr>"
    by (rule roll_walk_keeping)
  have "roll_plan c nextIndex old = roll_walk c (length old) ?k (drop ?k old) ?st1"
    by (rule split)
  also note second
  finally show ?thesis using k by (simp add: first min_absorb2 last_drop)
qed

subsection \<open>A roll sends a fixed script\<close>

lemma and_then_simps [simp]:
  "and_then (Some e, w) k = (Some e, w)"
  "and_then (None, w) k = k w"
  by (simp_all add: and_then_def)

lemma and_then_return [simp]: "and_then r (\<lambda>w. (None, w)) = r"
  by (cases r) (auto simp: and_then_def split: option.splits)

lemma and_then_assoc: "and_then (and_then r k1) k2 = and_then r (\<lambda>w. and_then (k1 w) k2)"
  by (cases r) (auto simp: and_then_def split: option.splits)


lemma send_all_Nil_fun: "send_all conn [] = (\<lambda>w. (None, w))"
  by (rule ext) simp

lemma send_all_Cons_fun: "send_all conn (r # rs) = (\<lambda>w. and_then (send conn r w) (send_all conn rs))"
  by (rule ext) simp

lemma send_all_single_fun: "send_all conn [r] = send conn r"
  by (rule ext) (simp add: send_all_Nil_fun)

lemma send_all_append:
  "send_all conn (rs @ rs') w = and_then (send_all conn rs w) (send_all conn rs')"
proof (induction rs arbitrary: w)
  case Nil
  then show ?case by simp
next
  case (Cons a rs)
  have "send_all conn (rs @ rs') = (\<lambda>w. and_then (send_all conn rs w) (send_all conn rs'))"
    by (rule ext) (rule Cons.IH)
  then show ?case by (simp add: and_then_assoc)
qed

lemma send_all_append_fun:
  "send_all conn (rs @ rs') = (\<lambda>w. and_then (send_all conn rs w) (send_all conn rs'))"
  by (rule ext) (rule send_all_append)

lemma roll_cleanup_script: "roll_cleanup conn c clean = send_all conn (cleanup_requests c clean)"
  by (rule ext)
    (simp add: roll_cleanup_def cleanup_requests_def send_all_single_fun send_all_Nil_fun
      send_all_Cons_fun)

lemma roll_optimize_script: "roll_optimize conn c opts = send_all conn (demotion_requests c opts)"
  by (rule ext)
    (simp add: roll_optimize_def demotion_requests_def send_all_single_fun send_all_Nil_fun
      send_all_Cons_fun split: option.splits)

lemma Roll_gated:
  "roll_gate conn pb c (NextIndex c t) (store w) = Some r \<Longrightarrow> Roll conn pb c t w = (r, w)"
  by (simp add: Roll_def Let_def)

lemma Roll_script:
  "roll_gate conn pb c (NextIndex c t) (store w) = None \<Longrightarrow>
   Roll conn pb c t w =
     send_all conn (roll_requests c (NextIndex c t) (OldIndexNames conn c (store w))) w"
  by (simp add: Roll_def Let_def roll_requests_def roll_cleanup_script roll_optimize_script
      send_all_Cons_fun send_all_append_fun)



subsection \<open>Failure of the creation\<close>

lemma create_failure_aborts:
  "roll_gate conn pb c (NextIndex c t) (store w) = None \<Longrightarrow>
   DoCommand conn (store w)
     (CreateIndexWithSettings (NextIndex c t) (case Settings c of None \<Rightarrow> [] | Some d \<Rightarrow> d)) =
     (Some err, s') \<Longrightarrow>
   Roll conn pb c t w =
     (Some err, \<lparr>store = s', issued = issued w @
        [CreateIndexWithSettings (NextIndex c t) (case Settings c of None \<Rightarrow> [] | Some d \<Rightarrow> d)]\<rparr>)"
  by (simp add: Roll_script roll_requests_def Let_def send_def)

text \<open>
  Claim C6. When the request that creates the new partition fails, \<^verbatim>\<open>Roll\<close>
  returns that error, and the creation is the only request it has sent: no alias batch,
  no cleanup, no update of settings and no optimize. The store is as the failed creation
  left it; in the store model that is the store as it was, aliases included. The
  creation carries the policy's creation settings as they are, or the empty document
  when the policy has none.
\<close>

theorem Roll_create_fails:
  "(roll_gate conn pb c (NextIndex c t) (store w) = None \<and>
    DoCommand conn (store w)
      (CreateIndexWithSettings (NextIndex c t) (case Settings c of None \<Rightarrow> [] | Some d \<Rightarrow> d)) =
      (Some err, s') \<longrightarrow>
    Roll conn pb c t w =
      (Some err, \<lparr>store = s', issued = issued w @
         [CreateIndexWithSettings (NextIndex c t) (case Settings c of None \<Rightarrow> [] | Some d \<Rightarrow> d)]\<rparr>)) \<and>
   (roll_gate (es_conn fails lost) pb c (NextIndex c t) (store v) = None \<and>
    fst (es_command fails (store v)
      (CreateIndexWithSettings (NextIndex c t) (case Settings c of None \<Rightarrow> [] | Some d \<Rightarrow> d))) \<noteq> None \<longrightarrow>
    store (snd (Roll (es_conn fails lost) pb c t v)) = store v)"
proof -
  let ?create = "CreateIndexWithSettings (NextIndex c t) (case Settings c of None \<Rightarrow> [] | Some d \<Rightarrow> d)"
  have "store (snd (Roll (es_conn fails lost) pb c t v)) = store v"
    if g: "roll_gate (es_conn fails lost) pb c (NextIndex c t) (store v) = None"
      and f: "fst (es_command fails (store v) ?create) \<noteq> None"
  proof -
    from f obtain e where "es_command fails (store v) ?create = (Some e, store v)"
      by (auto simp: es_command_def split: if_splits)
    then have "DoCommand (es_conn fails lost) (store v) ?create = (Some e, store v)"
      by (simp add: es_conn_def)
    from create_failure_aborts [OF g this] show ?thesis by simp
  qed
  with create_failure_aborts [of conn pb c t w err s'] show ?thesis by blast
qed

subsection \<open>The size rule\<close>

text \<open>
  The cases of \<^verbatim>\<open>HasRoom\<close>: no room when the target does not exist; the signed
  comparison of the measured size with the threshold when the size query finds one
  partition; an error, which \<^verbatim>\<open>Roll\<close> returns without sending a request, when it
  finds none or several. Below \<open>2 ^ 63\<close> bytes the converted threshold is the parsed
  one.
\<close>

lemma HasRoom_missing:
  "\<not> ExistsIndex conn s (TargetIndex c) \<Longrightarrow> HasRoom conn pb c s = (False, None)"
  by (simp add: HasRoom_def)

lemma HasRoom_measured:
  "ExistsIndex conn s (TargetIndex c) \<Longrightarrow> GetCatIndexInfo conn s (TargetIndex c) = [i] \<Longrightarrow>
   pb (RollSize c) = Inr maxBytes \<Longrightarrow>
   HasRoom conn pb c s = (sint (PriSize i) < sint maxBytes, None)"
  by (simp add: HasRoom_def IndexSize_def Let_def)

lemma HasRoom_ambiguous:
  "ExistsIndex conn (store w) (TargetIndex c) \<Longrightarrow>
   length (GetCatIndexInfo conn (store w) (TargetIndex c)) \<noteq> 1 \<Longrightarrow>
   \<exists>e. HasRoom conn pb c (store w) = (True, Some e) \<and>
       (RollsOnSize c \<longrightarrow> Roll conn pb c t w = (Some e, w))"
proof -
  assume ex: "ExistsIndex conn (store w) (TargetIndex c)"
    and len: "length (GetCatIndexInfo conn (store w) (TargetIndex c)) \<noteq> 1"
  from len have "length (GetCatIndexInfo conn (store w) (TargetIndex c)) = 0 \<or>
      1 < length (GetCatIndexInfo conn (store w) (TargetIndex c))" by arith
  then obtain e where e: "IndexSize conn c (store w) = (0, Some e)"
    by (cases "GetCatIndexInfo conn (store w) (TargetIndex c) = []") (auto simp: IndexSize_def Let_def)
  with ex have h: "HasRoom conn pb c (store w) = (True, Some e)" by (simp add: HasRoom_def)
  then have "Roll conn pb c t w = (Some e, w)" if "RollsOnSize c"
    using that by (simp add: Roll_def roll_gate_def Let_def)
  with h show ?thesis by blast
qed

lemma HasRoom_below_2_63:
  "ExistsIndex conn s (TargetIndex c) \<Longrightarrow> GetCatIndexInfo conn s (TargetIndex c) = [i] \<Longrightarrow>
   pb (RollSize c) = Inr maxBytes \<Longrightarrow> uint maxBytes < 2 ^ 63 \<Longrightarrow>
   HasRoom conn pb c s = (sint (PriSize i) < uint maxBytes, None)"
proof -
  assume a: "ExistsIndex conn s (TargetIndex c)" "GetCatIndexInfo conn s (TargetIndex c) = [i]"
     "pb (RollSize c) = Inr maxBytes" and b: "uint maxBytes < 2 ^ 63"
  have "(- (2 ^ 63) :: int) \<le> 0" by simp
  also have "0 \<le> uint maxBytes" by simp
  finally have "signed_take_bit 63 (uint maxBytes) = uint maxBytes"
    using b by (rule signed_take_bit_int_eq_self)
  then have "sint maxBytes = uint maxBytes"
    by (simp add: sint_uint)
  with a show ?thesis by (simp add: HasRoom_measured)
qed

text \<open>
  Claim C4, at a threshold of 10 EB. The policy passes the validation and its threshold
  parses to \<open>10 ^ 19\<close> bytes; the target exists and the size query finds its one
  partition, of 1000 bytes; \<^verbatim>\<open>HasRoom\<close> answers that there is no room, because the
  threshold converted to a signed 64-bit integer is negative; the roll goes on and
  creates a partition.
\<close>

theorem HasRoom_wraps_at_10EB:
  "Validate humanize_sample (sized_policy ''10EB'') = None \<and>
   humanize_sample (RollSize (sized_policy ''10EB'')) = Inr 10000000000000000000 \<and>
   es_cat small_store (TargetIndex (sized_policy ''10EB'')) =
     [\<lparr>Name = ''snowball_2016-06-03-17-38-53'', Status = ''open'', PriSize = 1000\<rparr>] \<and>
   HasRoom (es_conn never none_lost) humanize_sample (sized_policy ''10EB'') small_store = (False, None) \<and>
   issued (snd (Roll (es_conn never none_lost) humanize_sample (sized_policy ''10EB'') sample_time
      \<lparr>store = small_store, issued = []\<rparr>)) =
     [CreateIndexWithSettings ''snowball_2016-06-03-00-00-00'' [],
      UpdateAliases
       [(''add'', ''snowball_2016-06-03-00-00-00'', ''snowball''),
        (''add'', ''snowball_2016-06-03-00-00-00'', ''snowball_search''),
        (''remove'', ''snowball_2016-06-03-17-38-53'', ''snowball'')]]"
  by (simp add: sized_policy_def sample_policy_def humanize_sample_def Validate_def rollUnits_def
      small_store_def es_cat_def HasRoom_def IndexSize_def es_conn_def es_exists_def Let_def
      Roll_def roll_gate_def RollsOnSize_def NextIndex_def IndexSuffixFormat_def sample_time_def
      appendInt_def OldIndexNames_def roll_plan_def roll_body_def UpdateAliasAction_def
      and_then_def send_def es_command_def never_def none_lost_def es_alias_def roll_cleanup_def
      roll_optimize_def)

subsection \<open>Demotion\<close>

lemma filter_cleanup_requests [simp]: "filter is_demotion (cleanup_requests c clean) = []"
  by (simp add: cleanup_requests_def)

lemma filter_demotion_requests [simp]:
  "filter is_demotion (demotion_requests c opts) = demotion_requests c opts"
  by (simp add: demotion_requests_def split: option.splits)








subsection \<open>Sample rolls\<close>

lemmas roll_eval =
  Roll_def roll_gate_def RollsOnSize_def NextIndex_def IndexSuffixFormat_def appendInt_def
  OldIndexNames_def roll_plan_def roll_body_def UpdateAliasAction_def and_then_def send_def
  roll_cleanup_def roll_optimize_def HasRoom_def IndexSize_def Let_def
  es_conn_def es_command_def es_exists_def es_cat_def es_alias_def never_def none_lost_def

lemmas logs_eval =
  logs_policy_def logs_store_def logs_world_def logs_rolled_def logs_unflushed_def new_year_def



lemma logs_roll:
  "Roll (es_conn never none_lost) humanize_sample logs_policy (new_year 2018) logs_world =
   (None, logs_rolled)"
  by (simp add: roll_eval logs_eval)


theorem Roll_create_fails_witness:
  "roll_gate (es_conn create_fails none_lost) humanize_sample logs_policy
     (NextIndex logs_policy (new_year 2018)) logs_store = None \<and>
   Roll (es_conn create_fails none_lost) humanize_sample logs_policy (new_year 2018)
     \<lparr>store = logs_store, issued = []\<rparr> =
     (Some (Error ''request failed''),
      \<lparr>store = logs_store,
       issued = [CreateIndexWithSettings ''logs_2018'' [(''index.number_of_replicas'', ''1'')]]\<rparr>) \<and>
   es_aliases (store (snd (Roll (es_conn create_fails none_lost) humanize_sample logs_policy
      (new_year 2018) \<lparr>store = logs_store, issued = []\<rparr>))) =
     [(''logs_2016'', ''logs_search''), (''logs_2017'', ''logs''), (''logs_2017'', ''logs_search'')]"
  using Roll_create_fails [where conn = "es_conn create_fails none_lost" and pb = humanize_sample
      and c = logs_policy and t = "new_year 2018" and w = "\<lparr>store = logs_store, issued = []\<rparr>"
      and err = "Error ''request failed''" and s' = logs_store and fails = create_fails
      and lost = none_lost and v = "\<lparr>store = logs_store, issued = []\<rparr>"]
  by (simp add: roll_eval logs_policy_def logs_store_def new_year_def)



subsection \<open>Requests in the store model\<close>

lemma es_send_ok:
  "send (es_conn fails lost) r w = (None, w') \<Longrightarrow> store w' = es_apply r (store w) \<and> \<not> es_rejects (store w) r"
  by (auto simp: send_def es_conn_def es_command_def split: if_splits)

lemma es_send_failed:
  "send (es_conn fails lost) r w = (Some e, w') \<Longrightarrow> store w' = store w"
  by (auto simp: send_def es_conn_def es_command_def split: if_splits)


lemma es_send_all_prefix:
  "send_all (es_conn fails lost) rs w = (e, w') \<Longrightarrow> \<exists>j. store w' = fold es_apply (take j rs) (store w)"
proof (induction rs arbitrary: w)
  case Nil
  then show ?case by simp
next
  case (Cons r rs)
  obtain e1 w1 where 1: "send (es_conn fails lost) r w = (e1, w1)" by (cases "send (es_conn fails lost) r w")
  show ?case
  proof (cases e1)
    case None
    with 1 Cons.prems have "send_all (es_conn fails lost) rs w1 = (e, w')" by simp
    from Cons.IH [OF this] obtain j where "store w' = fold es_apply (take j rs) (store w1)" ..
    with es_send_ok [OF 1 [unfolded None]] have "store w' = fold es_apply (take (Suc j) (r # rs)) (store w)"
      by simp
    then show ?thesis ..
  next
    case (Some e')
    with 1 Cons.prems have "w' = w1" by simp
    with es_send_failed [OF 1 [unfolded Some]] have "store w' = fold es_apply (take 0 (r # rs)) (store w)"
      by simp
    then show ?thesis ..
  qed
qed

lemma map_Name_close:
  "map Name (map (\<lambda>i. if Name i \<in> A then i\<lparr>Status := x\<rparr> else i) xs) = map Name xs"
  by (induction xs) auto

lemma es_names_close: "es_names (es_apply (CloseIndex ns) s) = es_names s"
proof -
  have "es_indices (es_apply (CloseIndex ns) s) =
      map (\<lambda>i. if Name i \<in> set ns then i\<lparr>Status := ''close''\<rparr> else i) (es_indices s)"
    by simp
  then show ?thesis unfolding es_names_def by (simp only: map_Name_close)
qed

lemma es_names_apply:
  assumes "n \<in> es_names s" and "\<And>ns. r = DeleteIndex ns \<Longrightarrow> n \<notin> set ns"
  shows "n \<in> es_names (es_apply r s)"
proof (cases r)
  case (CloseIndex ns)
  then show ?thesis using assms(1) by (simp only: es_names_close)
next
  case (DeleteIndex ns)
  with assms show ?thesis by (auto simp: es_names_def)
qed (use assms(1) in \<open>auto simp: es_names_def\<close>)

lemma es_names_fold:
  "n \<in> es_names s \<Longrightarrow> (\<And>ns. DeleteIndex ns \<in> set rs \<Longrightarrow> n \<notin> set ns) \<Longrightarrow>
   n \<in> es_names (fold es_apply rs s)"
proof (induction rs arbitrary: s)
  case Nil
  then show ?case by simp
next
  case (Cons r rs)
  have "n \<in> es_names (es_apply r s)"
    using Cons.prems by (intro es_names_apply) auto
  then show ?case using Cons.prems(2) by (simp add: Cons.IH)
qed


lemma fold_demotion_requests [simp]: "fold es_apply (demotion_requests c opts) s = s"
  by (simp add: demotion_requests_def split: option.splits)




lemma es_old_names:
  "Name ` set (OldIndexNames (es_conn fails lost) c s) \<subseteq> es_names s"
  by (auto simp: OldIndexNames_def es_conn_def es_cat_def es_names_def Let_def)


subsection \<open>Idempotence\<close>

lemma cleanup_plan_subset: "set (cleanup (roll_plan c nextIndex old)) \<subseteq> Name ` set old"
  by (auto simp: roll_plan_eq dest: in_set_takeD)

lemma delete_in_roll_requests:
  "DeleteIndex ns \<in> set (roll_requests c nextIndex old) \<Longrightarrow> set ns \<subseteq> Name ` set old"
  using cleanup_plan_subset [of c nextIndex old]
  by (auto simp: roll_requests_def Let_def cleanup_requests_def demotion_requests_def
      split: if_splits option.splits)

lemma es_gate_time:
  "\<not> RollsOnSize c \<Longrightarrow>
   roll_gate (es_conn fails lost) pb c n s =
     (if \<not> lost s (Exists n) \<and> es_exists s n then Some None else None)"
  by (simp add: roll_gate_def es_conn_def)

lemma es_Roll_leaves_partition:
  assumes time: "\<not> RollsOnSize c"
    and roll: "Roll (es_conn fails lost) pb c t v = (r, v')"
  shows "es_exists (store v') (NextIndex c t) \<or> (r \<noteq> None \<and> store v' = store v)"
proof (cases "\<not> lost (store v) (Exists (NextIndex c t)) \<and> es_exists (store v) (NextIndex c t)")
  case True
  with time roll show ?thesis by (simp add: Roll_gated es_gate_time)
next
  case False
  let ?next = "NextIndex c t"
  let ?old = "OldIndexNames (es_conn fails lost) c (store v)"
  let ?rs = "roll_requests c ?next ?old"
  obtain create rest where rs: "?rs = create # rest"
    and create: "create = CreateIndexWithSettings ?next (case Settings c of None \<Rightarrow> [] | Some d \<Rightarrow> d)"
    by (simp add: roll_requests_def Let_def)
  from False time have "roll_gate (es_conn fails lost) pb c ?next (store v) = None"
    by (simp add: es_gate_time)
  with roll have all: "send_all (es_conn fails lost) ?rs v = (r, v')"
    by (simp add: Roll_script)
  obtain e1 v1 where 1: "send (es_conn fails lost) create v = (e1, v1)"
    by (cases "send (es_conn fails lost) create v")
  show ?thesis
  proof (cases e1)
    case (Some e)
    with all 1 have "r = Some e" "v' = v1" by (simp_all add: rs)
    with es_send_failed [OF 1 [unfolded Some]] show ?thesis by simp
  next
    case None
    with all 1 have rest: "send_all (es_conn fails lost) rest v1 = (r, v')" by (simp add: rs)
    from es_send_ok [OF 1 [unfolded None]]
    have v1: "store v1 = es_apply create (store v)" and fresh: "\<not> es_exists (store v) ?next"
      by (simp_all add: create)
    from v1 have in1: "?next \<in> es_names (store v1)" by (simp add: create es_names_def)
    from es_send_all_prefix [OF rest] obtain j
      where j: "store v' = fold es_apply (take j rest) (store v1)" ..
    have "?next \<notin> set ns" if "DeleteIndex ns \<in> set (take j rest)" for ns
    proof -
      from that have "DeleteIndex ns \<in> set ?rs" by (auto simp: rs dest: in_set_takeD)
      from delete_in_roll_requests [OF this] es_old_names [of fails lost c "store v"]
      have "set ns \<subseteq> es_names (store v)" by blast
      moreover from fresh have "?next \<notin> es_names (store v)" by (simp add: es_exists_def es_names_def)
      ultimately show ?thesis by blast
    qed
    with in1 have "?next \<in> es_names (store v')" unfolding j by (rule es_names_fold)
    then show ?thesis by (simp add: es_exists_def es_names_def)
  qed
qed

text \<open>
  Claim C3, as the code has it. For a time-based policy, when the existence query
  answers that the name of the next partition exists, \<^verbatim>\<open>Roll\<close> returns success
  and leaves the store and the list of sent requests as they are. Hence, in the store
  model, after a call of \<^verbatim>\<open>Roll\<close> a second call at an instant with the same
  partition name, whose existence query is answered, returns success and changes
  nothing; the one exception is a first call that returned an error and left the store
  as it found it, its creation having failed. The networks of the two calls need not be
  the same.
\<close>

theorem Roll_idempotent:
  "\<not> RollsOnSize c \<longrightarrow>
   (ExistsIndex conn (store w) (NextIndex c t) \<longrightarrow> Roll conn pb c t w = (None, w)) \<and>
   (NextIndex c t' = NextIndex c t \<and> Roll (es_conn fails lost) pb c t v = (r, v') \<and>
    \<not> lost' (store v') (Exists (NextIndex c t')) \<longrightarrow>
      Roll (es_conn fails' lost') pb c t' v' = (None, v') \<or> (r \<noteq> None \<and> store v' = store v))"
proof (intro impI conjI)
  assume time: "\<not> RollsOnSize c"
  {
    assume "ExistsIndex conn (store w) (NextIndex c t)"
    with time have "roll_gate conn pb c (NextIndex c t) (store w) = Some None"
      by (simp add: roll_gate_def)
    then show "Roll conn pb c t w = (None, w)" by (rule Roll_gated)
  }
  {
    assume "NextIndex c t' = NextIndex c t \<and> Roll (es_conn fails lost) pb c t v = (r, v') \<and>
      \<not> lost' (store v') (Exists (NextIndex c t'))"
    then have same: "NextIndex c t' = NextIndex c t"
      and roll: "Roll (es_conn fails lost) pb c t v = (r, v')"
      and answered: "\<not> lost' (store v') (Exists (NextIndex c t'))"
      by blast+
    from es_Roll_leaves_partition [OF time roll]
    show "Roll (es_conn fails' lost') pb c t' v' = (None, v') \<or> (r \<noteq> None \<and> store v' = store v)"
    proof
      assume "es_exists (store v') (NextIndex c t)"
      with time same answered
      have "roll_gate (es_conn fails' lost') pb c (NextIndex c t') (store v') = Some None"
        by (simp add: es_gate_time)
      then show ?thesis by (simp add: Roll_gated)
    qed simp
  }
qed

theorem Roll_idempotent_witness:
  "\<not> RollsOnSize logs_policy \<and>
   NextIndex logs_policy july_2018 = NextIndex logs_policy (new_year 2018) \<and>
   Roll (es_conn never none_lost) humanize_sample logs_policy (new_year 2018) logs_world =
     (None, logs_rolled) \<and>
   ExistsIndex (es_conn never none_lost) (store logs_rolled) (NextIndex logs_policy (new_year 2018)) \<and>
   \<not> none_lost (store logs_rolled) (Exists (NextIndex logs_policy july_2018)) \<and>
   Roll (es_conn never none_lost) humanize_sample logs_policy july_2018 logs_rolled =
     (None, logs_rolled)"
  using Roll_idempotent [where c = logs_policy and conn = "es_conn never none_lost"
      and pb = humanize_sample and w = logs_rolled and t = "new_year 2018" and t' = july_2018
      and fails = never and lost = none_lost and fails' = never and lost' = none_lost
      and v = logs_world and r = None and v' = logs_rolled]
  by (simp add: logs_roll)
    (simp add: RollsOnSize_def NextIndex_def IndexSuffixFormat_def appendInt_def logs_eval
      july_2018_def es_conn_def es_exists_def none_lost_def)

text \<open>
  Two second calls that are not without effect, for the yearly policy at the start and in
  July of 2018. After a first call whose creation failed, the second call rolls: it
  creates the partition of 2018 and moves the handles. After a first call that rolled,
  a second call whose existence query is lost does not see the partition that exists:
  it sends a creation, which the store refuses, and returns that error.
\<close>

theorem Roll_idempotent_counterexample:
  "NextIndex logs_policy july_2018 = NextIndex logs_policy (new_year 2018) \<and>
   Roll (es_conn create_fails none_lost) humanize_sample logs_policy (new_year 2018) logs_world =
     (Some (Error ''request failed''),
      \<lparr>store = logs_store,
       issued = [CreateIndexWithSettings ''logs_2018'' [(''index.number_of_replicas'', ''1'')]]\<rparr>) \<and>
   Roll (es_conn never none_lost) humanize_sample logs_policy july_2018
      \<lparr>store = logs_store,
       issued = [CreateIndexWithSettings ''logs_2018'' [(''index.number_of_replicas'', ''1'')]]\<rparr> =
     (None,
      \<lparr>store = store logs_rolled,
       issued = CreateIndexWithSettings ''logs_2018'' [(''index.number_of_replicas'', ''1'')] #
                issued logs_rolled\<rparr>) \<and>
   store logs_rolled \<noteq> logs_store \<and>
   Roll (es_conn never none_lost) humanize_sample logs_policy (new_year 2018) logs_world =
     (None, logs_rolled) \<and>
   es_exists (store logs_rolled) (NextIndex logs_policy july_2018) \<and>
   Roll (es_conn never exists_lost) humanize_sample logs_policy july_2018 logs_rolled =
     (Some (Error ''request failed''),
      \<lparr>store = store logs_rolled,
       issued = issued logs_rolled @
         [CreateIndexWithSettings ''logs_2018'' [(''index.number_of_replicas'', ''1'')]]\<rparr>)"
  by (simp add: logs_roll)
    (simp add: roll_eval logs_eval july_2018_def)

subsection \<open>The handles after a roll\<close>












subsection \<open>Exit codes\<close>

text \<open>
  Claim C8, as the program has it, for a load that does not panic. Without the daemon
  flag, \<^verbatim>\<open>main\<close> exits with code 1 when the load returns an error, that is when
  the search fails, when it counts no document, or when a document does not decode;
  otherwise it rolls every loaded policy once and exits with code 0, also when every
  document was dropped by the validation. With the daemon flag \<^verbatim>\<open>main\<close> enters
  the loop whatever the load returned, on an empty working set after an error, and a
  reload tick goes on with the working set that the load then returns, or with an empty
  one after an error.
\<close>

theorem main_exit_code:
  "(fst (GetConfigs pb res) = Loaded got \<longrightarrow>
      main conn pb False res now w =
        (case got of
           Inl e \<Rightarrow> Exit 1 w
         | Inr cs \<Rightarrow> Exit 0 (fst (roll_each conn pb (\<lambda>conf. True) now 0 cs (w, [])))) \<and>
      main conn pb True res now w = Serving (case got of Inl e \<Rightarrow> [] | Inr cs \<Rightarrow> cs) w \<and>
      daemon_turn conn pb (ConfigTicker res) (configs, w) =
        Serving (case got of Inl e \<Rightarrow> [] | Inr cs \<Rightarrow> cs) w) \<and>
   main conn pb False (Inl e0) now w = Exit 1 w \<and>
   (HitsTotal r = 0 \<longrightarrow> main conn pb False (Inr r) now w = Exit 1 w) \<and>
   (HitsTotal r \<noteq> 0 \<and>
    HitsHits r = map decodable_hit docs @ \<lparr>HitId = i, Source = Some (Undecodable e)\<rparr> # rest \<longrightarrow>
      main conn pb False (Inr r) now w = Exit 1 w) \<and>
   (HitsTotal r \<noteq> 0 \<and> HitsHits r = map decodable_hit docs \<longrightarrow>
      main conn pb False (Inr r) now w =
        Exit 0 (fst (roll_each conn pb (\<lambda>conf. True) now 0
          (filter (\<lambda>c. Validate pb c = None) (map candidate docs)) (w, []))))"
proof -
  have "main conn pb False (Inl e0) now w = Exit 1 w"
    by (simp add: main_def GetConfigs_def)
  moreover have "main conn pb False (Inr r) now w = Exit 1 w" if "HitsTotal r = 0"
    using that by (simp add: main_def GetConfigs_def)
  moreover have "main conn pb False (Inr r) now w = Exit 1 w"
    if "HitsTotal r \<noteq> 0"
      "HitsHits r = map decodable_hit docs @ \<lparr>HitId = i, Source = Some (Undecodable e)\<rparr> # rest"
    using GetConfigs_undecodable [OF that, of pb] by (simp add: main_def)
  moreover have "main conn pb False (Inr r) now w =
        Exit 0 (fst (roll_each conn pb (\<lambda>conf. True) now 0
          (filter (\<lambda>c. Validate pb c = None) (map candidate docs)) (w, [])))"
    if "HitsTotal r \<noteq> 0" "HitsHits r = map decodable_hit docs"
    using GetConfigs_decodable [OF that, of pb] by (simp add: main_def)
  ultimately show ?thesis
    by (auto simp: main_def Let_def split: sum.splits)
qed

lemma roll_each_single:
  "fst (roll_each conn pb (\<lambda>conf. True) now k [conf] (w, pr)) = snd (Roll conn pb conf (now k) w)"
  by (cases "Roll conn pb conf (now k) w") (auto split: option.splits)

theorem main_exit_code_witness:
  "main (es_conn never none_lost) humanize_sample False (Inr \<lparr>HitsTotal = 0, HitsHits = []\<rparr>)
      (always sample_time) \<lparr>store = empty_store, issued = []\<rparr> =
     Exit 1 \<lparr>store = empty_store, issued = []\<rparr> \<and>
   main (es_conn never none_lost) humanize_sample False
      (Inr \<lparr>HitsTotal = 2, HitsHits = [decodable_hit (''logs'', logs_policy), undecodable_hit]\<rparr>)
      (always sample_time) \<lparr>store = empty_store, issued = []\<rparr> =
     Exit 1 \<lparr>store = empty_store, issued = []\<rparr> \<and>
   main (es_conn never none_lost) humanize_sample False
      (Inr \<lparr>HitsTotal = 1, HitsHits = [decodable_hit (''logs'', logs_policy)]\<rparr>)
      (always (new_year 2017)) \<lparr>store = empty_store, issued = []\<rparr> =
     Exit 0 (snd (Roll (es_conn never none_lost) humanize_sample logs_policy (new_year 2017)
        \<lparr>store = empty_store, issued = []\<rparr>)) \<and>
   main (es_conn never none_lost) humanize_sample True (Inr \<lparr>HitsTotal = 0, HitsHits = []\<rparr>)
      (always sample_time) \<lparr>store = empty_store, issued = []\<rparr> =
     Serving [] \<lparr>store = empty_store, issued = []\<rparr> \<and>
   daemon_turn (es_conn never none_lost) humanize_sample
      (ConfigTicker (Inr \<lparr>HitsTotal = 0, HitsHits = []\<rparr>))
      ([logs_policy], \<lparr>store = empty_store, issued = []\<rparr>) =
     Serving [] \<lparr>store = empty_store, issued = []\<rparr> \<and>
   daemon_turn (es_conn never none_lost) humanize_sample
      (ConfigTicker (Inr \<lparr>HitsTotal = 1, HitsHits = [decodable_hit (''logs'', logs_policy)]\<rparr>))
      ([], \<lparr>store = empty_store, issued = []\<rparr>) =
     Serving [logs_policy] \<lparr>store = empty_store, issued = []\<rparr>"
  using main_exit_code [where conn = "es_conn never none_lost" and pb = humanize_sample
      and res = "Inr \<lparr>HitsTotal = 0, HitsHits = []\<rparr>"
      and got = "Inl (Error ''configuration documents not found'')"
      and now = "always sample_time" and w = "\<lparr>store = empty_store, issued = []\<rparr>"
      and configs = "[logs_policy]" and r = "\<lparr>HitsTotal = 0, HitsHits = []\<rparr>"
      and docs = "[]" and i = "''garbled''" and e = decode_error and rest = "[]"
      and ?e0.0 = decode_error]
    main_exit_code [where conn = "es_conn never none_lost" and pb = humanize_sample
      and res = "Inr \<lparr>HitsTotal = 1, HitsHits = [decodable_hit (''logs'', logs_policy)]\<rparr>"
      and got = "Inr [logs_policy]"
      and now = "always (new_year 2017)" and w = "\<lparr>store = empty_store, issued = []\<rparr>"
      and configs = "[]"
      and r = "\<lparr>HitsTotal = 1, HitsHits = [decodable_hit (''logs'', logs_policy)]\<rparr>"
      and docs = "[(''logs'', logs_policy)]" and i = "''garbled''" and e = decode_error
      and rest = "[]" and ?e0.0 = decode_error]
    main_exit_code [where conn = "es_conn never none_lost" and pb = humanize_sample
      and res = "Inr \<lparr>HitsTotal = 0, HitsHits = []\<rparr>"
      and got = "Inl (Error ''configuration documents not found'')"
      and now = "always sample_time" and w = "\<lparr>store = empty_store, issued = []\<rparr>"
      and configs = "[]"
      and r = "\<lparr>HitsTotal = 2, HitsHits = [decodable_hit (''logs'', logs_policy), undecodable_hit]\<rparr>"
      and docs = "[(''logs'', logs_policy)]" and i = "''garbled''" and e = decode_error
      and rest = "[]" and ?e0.0 = decode_error]
  by (simp add: GetConfigs_def decodable_hit_def undecodable_hit_def json_Unmarshal_def candidate_def
      SetDefaults_def Validate_def rollUnits_def logs_policy_def Let_def always_def
      roll_each_single [unfolded always_def] del: roll_each.simps)

text \<open>
  The claim as the specification words it fails. A lone document without
  \<^verbatim>\<open>rollUnit\<close> is dropped by the validation, the load succeeds with no policy, and
  the one-shot process exits with code 0. A hit without a source makes the load panic:
  the one-shot process exits with code 2, and so does the daemon, at its start and on a
  reload tick.
\<close>

theorem main_exit_code_counterexample:
  "GetConfigs humanize_sample (Inr \<lparr>HitsTotal = 1, HitsHits = [decodable_hit (sample_docs ! 1)]\<rparr>) =
     (Loaded (Inr []), [Error ''configuration id[broken] is invalid. rollUnit is required.'']) \<and>
   main (es_conn never none_lost) humanize_sample False
     (Inr \<lparr>HitsTotal = 1, HitsHits = [decodable_hit (sample_docs ! 1)]\<rparr>) (always sample_time)
     \<lparr>store = empty_store, issued = []\<rparr> =
     Exit 0 \<lparr>store = empty_store, issued = []\<rparr> \<and>
   main (es_conn never none_lost) humanize_sample False
     (Inr \<lparr>HitsTotal = 1, HitsHits = [sourceless_hit]\<rparr>) (always sample_time)
     \<lparr>store = empty_store, issued = []\<rparr> =
     Exit 2 \<lparr>store = empty_store, issued = []\<rparr> \<and>
   main (es_conn never none_lost) humanize_sample True
     (Inr \<lparr>HitsTotal = 1, HitsHits = [sourceless_hit]\<rparr>) (always sample_time)
     \<lparr>store = empty_store, issued = []\<rparr> =
     Exit 2 \<lparr>store = empty_store, issued = []\<rparr> \<and>
   daemon_turn (es_conn never none_lost) humanize_sample
     (ConfigTicker (Inr \<lparr>HitsTotal = 1, HitsHits = [sourceless_hit]\<rparr>))
     ([logs_policy], \<lparr>store = empty_store, issued = []\<rparr>) =
     Exit 2 \<lparr>store = empty_store, issued = []\<rparr>"
  by (simp add: main_def GetConfigs_def sample_docs_def decodable_hit_def json_Unmarshal_def
      sourceless_hit_def SetDefaults_def Validate_def rollUnits_def sample_policy_def Let_def)

end
